theory Spec2Isabelle
  imports Complex_Main
begin

section \<open>Python values\<close>

text \<open>
  The configuration is an untyped dict from string keys to Python values. The values
  modelled are the scalars a configuration can hold: \<^verbatim>\<open>None\<close>, booleans, unbounded
  integers, floats, strings, byte strings and opaque callables (the \<^verbatim>\<open>on_error\<close>
  and \<^verbatim>\<open>on_flush\<close> hooks). A float is a finite rational, an infinity or NaN; the
  two zeros are one value, which no comparison of the program tells apart.
\<close>

datatype pyfloat = Finite rat | PosInf | NegInf | NaN

datatype pyval =
    PNone
  | PBool bool
  | PInt int
  | PFloat pyfloat
  | PStr string
  | PBytes string
  | PFunc nat

text \<open>Truth value of an object, as \<^verbatim>\<open>not x\<close> and \<^verbatim>\<open>if x\<close> take it.\<close>

fun truthy :: "pyval \<Rightarrow> bool" where
  "truthy PNone = False"
| "truthy (PBool b) = b"
| "truthy (PInt i) = (i \<noteq> 0)"
| "truthy (PFloat (Finite r)) = (r \<noteq> 0)"
| "truthy (PFloat _) = True"
| "truthy (PStr s) = (s \<noteq> [])"
| "truthy (PBytes s) = (s \<noteq> [])"
| "truthy (PFunc _) = True"

fun isinstance_str :: "pyval \<Rightarrow> bool" where
  "isinstance_str (PStr _) = True"
| "isinstance_str _ = False"

section \<open>Exceptions\<close>

text \<open>
  Modelled from the spec: the error codes are declared in \<^verbatim>\<open>logwell.errors\<close>,
  which is not among the sources at hand; the only code this module raises is
  \<^verbatim>\<open>INVALID_CONFIG\<close>.
\<close>

datatype LogwellErrorCode = INVALID_CONFIG

datatype pyexc =
    LogwellError string LogwellErrorCode
  | TypeError
  | ValueError
  | UnicodeDecodeError
  | AttributeError
  | KeyError string

text \<open>\<^verbatim>\<open>UnicodeDecodeError\<close> is a subclass of \<^verbatim>\<open>ValueError\<close>.\<close>

fun is_value_error :: "pyexc \<Rightarrow> bool" where
  "is_value_error ValueError = True"
| "is_value_error UnicodeDecodeError = True"
| "is_value_error _ = False"

text \<open>Sequencing of computations that may raise.\<close>

definition and_then :: "pyexc + 'a \<Rightarrow> ('a \<Rightarrow> pyexc + 'b) \<Rightarrow> pyexc + 'b" where
  "and_then m f = (case m of Inl e \<Rightarrow> Inl e | Inr x \<Rightarrow> f x)"

section \<open>Comparison with an integer literal\<close>

text \<open>
  \<^verbatim>\<open>v <= n\<close> and \<^verbatim>\<open>v < n\<close> for an integer literal \<^verbatim>\<open>n\<close>. Booleans
  compare as the integers 0 and 1, every comparison with NaN is false, and a value
  that is not a number raises \<^verbatim>\<open>TypeError\<close>.
\<close>

fun py_le_int :: "pyval \<Rightarrow> int \<Rightarrow> pyexc + bool" where
  "py_le_int (PBool b) n = Inr ((if b then 1 else 0) \<le> n)"
| "py_le_int (PInt i) n = Inr (i \<le> n)"
| "py_le_int (PFloat (Finite r)) n = Inr (r \<le> of_int n)"
| "py_le_int (PFloat PosInf) n = Inr False"
| "py_le_int (PFloat NegInf) n = Inr True"
| "py_le_int (PFloat NaN) n = Inr False"
| "py_le_int _ n = Inl TypeError"

fun py_lt_int :: "pyval \<Rightarrow> int \<Rightarrow> pyexc + bool" where
  "py_lt_int (PBool b) n = Inr ((if b then 1 else 0) < n)"
| "py_lt_int (PInt i) n = Inr (i < n)"
| "py_lt_int (PFloat (Finite r)) n = Inr (r < of_int n)"
| "py_lt_int (PFloat PosInf) n = Inr False"
| "py_lt_int (PFloat NegInf) n = Inr True"
| "py_lt_int (PFloat NaN) n = Inr False"
| "py_lt_int _ n = Inl TypeError"

section \<open>Regular expressions\<close>

text \<open>
  The fragment of \<^verbatim>\<open>re\<close> the API key pattern uses: the anchors, literal
  characters, character classes given as ranges, and a counted repetition of a
  single-character atom. Without the MULTILINE flag \<^verbatim>\<open>^\<close> matches at the start
  of the string only, and \<^verbatim>\<open>$\<close> matches at the end of the string and also just
  before a newline that is the last character of the string.
\<close>

datatype re_atom = Lit char | Class "(char \<times> char) list"

datatype re_item = Caret | Dollar | Atom re_atom | Repeat re_atom nat

fun in_range :: "char \<Rightarrow> char \<times> char \<Rightarrow> bool" where
  "in_range c (lo, hi) = ((of_char lo :: nat) \<le> of_char c \<and> (of_char c :: nat) \<le> of_char hi)"

fun atom_matches :: "re_atom \<Rightarrow> char \<Rightarrow> bool" where
  "atom_matches (Lit l) c = (c = l)"
| "atom_matches (Class rs) c = list_ex (in_range c) rs"

text \<open>
  \<^verbatim>\<open>re_match_here items at_start s\<close>: the items match a prefix of the rest
  \<^verbatim>\<open>s\<close> of the subject; \<^verbatim>\<open>at_start\<close> says that nothing has been consumed yet.
\<close>

fun re_match_here :: "re_item list \<Rightarrow> bool \<Rightarrow> string \<Rightarrow> bool" where
  "re_match_here [] at_start s = True"
| "re_match_here (Caret # r) at_start s = (at_start \<and> re_match_here r at_start s)"
| "re_match_here (Dollar # r) at_start s =
     ((s = [] \<or> s = [CHR 0x0A]) \<and> re_match_here r at_start s)"
| "re_match_here (Atom a # r) at_start s =
     (case s of [] \<Rightarrow> False | c # cs \<Rightarrow> atom_matches a c \<and> re_match_here r False cs)"
| "re_match_here (Repeat a 0 # r) at_start s = re_match_here r at_start s"
| "re_match_here (Repeat a (Suc n) # r) at_start s =
     (case s of [] \<Rightarrow> False
      | c # cs \<Rightarrow> atom_matches a c \<and> re_match_here (Repeat a n # r) False cs)"

text \<open>\<^verbatim>\<open>pattern.match(s)\<close>: a match anchored at the start of the string.\<close>

definition re_match :: "re_item list \<Rightarrow> string \<Rightarrow> bool" where
  "re_match pat s = re_match_here pat True s"

section \<open>The module\<close>

text \<open>\<^verbatim>\<open>API_KEY_REGEX = re.compile(r"^lw_[A-Za-z0-9_-]{32}$")\<close>\<close>

definition API_KEY_REGEX :: "re_item list" where
  "API_KEY_REGEX =
     [Caret, Atom (Lit CHR ''l''), Atom (Lit CHR ''w''), Atom (Lit CHR ''_''),
      Repeat (Class [(CHR ''A'', CHR ''Z''), (CHR ''a'', CHR ''z''), (CHR ''0'', CHR ''9''),
                     (CHR ''_'', CHR ''_''), (CHR ''-'', CHR ''-'')]) 32,
      Dollar]"

fun validate_api_key_format :: "pyval \<Rightarrow> bool" where
  "validate_api_key_format api_key =
     (if \<not> truthy api_key \<or> \<not> isinstance_str api_key then False
      else (case api_key of PStr s \<Rightarrow> re_match API_KEY_REGEX s | _ \<Rightarrow> False))"

text \<open>
  \<^verbatim>\<open>urlparse\<close> is the standard library's. What it makes of a string is a parameter of
  the model: a parser gives the scheme and the network location of a string, or
  \<^verbatim>\<open>None\<close> where the library raises \<^verbatim>\<open>ValueError\<close>, its only failure on a string.
  An argument that is not a string is decoded first: a false one counts as the empty
  string; a true byte string is decoded as ASCII, which raises
  \<^verbatim>\<open>UnicodeDecodeError\<close> on a byte above 127, and is then parsed as a string is, the
  result being encoded back (an empty component stays empty); any other true value has
  no \<^verbatim>\<open>decode\<close> attribute.
\<close>

record ParseResult =
  scheme :: string
  netloc :: string

type_synonym url_parser = "string \<Rightarrow> ParseResult option"

definition is_ascii :: "string \<Rightarrow> bool" where
  "is_ascii s = list_all (\<lambda>c. (of_char c :: nat) < 128) s"

definition parse_str :: "url_parser \<Rightarrow> string \<Rightarrow> pyexc + ParseResult" where
  "parse_str parser s = (case parser s of None \<Rightarrow> Inl ValueError | Some r \<Rightarrow> Inr r)"

definition urlparse :: "url_parser \<Rightarrow> pyval \<Rightarrow> pyexc + ParseResult" where
  "urlparse parser url =
     (case url of
        PStr s \<Rightarrow> parse_str parser s
      | PBytes b \<Rightarrow>
          if \<not> truthy url then parse_str parser []
          else if is_ascii b then parse_str parser b
          else Inl UnicodeDecodeError
      | _ \<Rightarrow> if truthy url then Inl AttributeError else parse_str parser [])"

text \<open>
  The handler catches \<^verbatim>\<open>ValueError\<close>, its subclasses included, and
  \<^verbatim>\<open>AttributeError\<close>; any other exception would propagate.
\<close>

definition is_valid_url :: "url_parser \<Rightarrow> pyval \<Rightarrow> pyexc + bool" where
  "is_valid_url parser url =
     (case urlparse parser url of
        Inr result \<Rightarrow> Inr (scheme result \<noteq> [] \<and> netloc result \<noteq> [])
      | Inl e \<Rightarrow> if is_value_error e \<or> e = AttributeError then Inr False else Inl e)"

text \<open>
  Modelled from the spec: \<^verbatim>\<open>LogwellConfig\<close> is declared in \<^verbatim>\<open>logwell.types\<close>, which
  is not among the sources at hand. The data model's RawConfig is an untyped mapping
  from keys to values; such a declaration is a plain dict when the program runs, and
  nothing checks the types of its values.
\<close>

type_synonym config = "string \<rightharpoonup> pyval"

definition DEFAULT_CONFIG :: config where
  "DEFAULT_CONFIG =
     [''batch_size'' \<mapsto> PInt 50,
      ''flush_interval'' \<mapsto> PFloat (Finite 5),
      ''max_queue_size'' \<mapsto> PInt 1000,
      ''max_retries'' \<mapsto> PInt 3,
      ''capture_source_location'' \<mapsto> PBool False]"

text \<open>\<^verbatim>\<open>d[k]\<close>, \<^verbatim>\<open>d.get(k, default)\<close> and \<^verbatim>\<open>k not in d or not d[k]\<close>.\<close>

definition getitem :: "config \<Rightarrow> string \<Rightarrow> pyexc + pyval" where
  "getitem d k = (case d k of None \<Rightarrow> Inl (KeyError k) | Some v \<Rightarrow> Inr v)"

definition dict_get :: "config \<Rightarrow> string \<Rightarrow> pyval \<Rightarrow> pyval" where
  "dict_get d k dflt = (case d k of None \<Rightarrow> dflt | Some v \<Rightarrow> v)"

definition absent_or_false :: "config \<Rightarrow> string \<Rightarrow> bool" where
  "absent_or_false d k = (case d k of None \<Rightarrow> True | Some v \<Rightarrow> \<not> truthy v)"

text \<open>\<^verbatim>\<open>k in d and cmp(d[k])\<close>: the comparison runs only when the key is there.\<close>

definition present_and :: "config \<Rightarrow> string \<Rightarrow> (pyval \<Rightarrow> pyexc + bool) \<Rightarrow> pyexc + bool" where
  "present_and d k cmp = (case d k of None \<Rightarrow> Inr False | Some v \<Rightarrow> cmp v)"

definition invalid_config :: "string \<Rightarrow> pyexc + 'a" where
  "invalid_config msg = Inl (LogwellError msg INVALID_CONFIG)"

text \<open>The optional fields copied only when the caller gave them.\<close>

definition copy_if_present :: "config \<Rightarrow> string \<Rightarrow> config \<Rightarrow> config" where
  "copy_if_present d k merged = (case d k of None \<Rightarrow> merged | Some v \<Rightarrow> merged(k \<mapsto> v))"

definition merge_defaults :: "config \<Rightarrow> pyexc + config" where
  "merge_defaults d =
     and_then (getitem d ''api_key'') (\<lambda>api_key.
     and_then (getitem d ''endpoint'') (\<lambda>endpoint.
     and_then (getitem DEFAULT_CONFIG ''batch_size'') (\<lambda>d_batch_size.
     and_then (getitem DEFAULT_CONFIG ''flush_interval'') (\<lambda>d_flush_interval.
     and_then (getitem DEFAULT_CONFIG ''max_queue_size'') (\<lambda>d_max_queue_size.
     and_then (getitem DEFAULT_CONFIG ''max_retries'') (\<lambda>d_max_retries.
     and_then (getitem DEFAULT_CONFIG ''capture_source_location'') (\<lambda>d_capture.
       Inr (copy_if_present d ''on_flush''
           (copy_if_present d ''on_error''
           (copy_if_present d ''service''
             [''api_key'' \<mapsto> api_key,
              ''endpoint'' \<mapsto> endpoint,
              ''batch_size'' \<mapsto> dict_get d ''batch_size'' d_batch_size,
              ''flush_interval'' \<mapsto> dict_get d ''flush_interval'' d_flush_interval,
              ''max_queue_size'' \<mapsto> dict_get d ''max_queue_size'' d_max_queue_size,
              ''max_retries'' \<mapsto> dict_get d ''max_retries'' d_max_retries,
              ''capture_source_location'' \<mapsto>
                 dict_get d ''capture_source_location'' d_capture]))))))))))"

definition validate_config :: "url_parser \<Rightarrow> config \<Rightarrow> pyexc + config" where
  "validate_config parser d =
     (if absent_or_false d ''api_key'' then invalid_config ''api_key is required''
      else if absent_or_false d ''endpoint'' then invalid_config ''endpoint is required''
      else
        and_then (getitem d ''api_key'') (\<lambda>api_key.
        if \<not> validate_api_key_format api_key
        then invalid_config ''Invalid API key format. Expected: lw_[32 characters]''
        else
          and_then (getitem d ''endpoint'') (\<lambda>endpoint.
          and_then (is_valid_url parser endpoint) (\<lambda>ok.
          if \<not> ok then invalid_config ''Invalid endpoint URL''
          else
            and_then (present_and d ''batch_size'' (\<lambda>v. py_le_int v 0)) (\<lambda>bad.
            if bad then invalid_config ''batch_size must be positive''
            else
              and_then (present_and d ''flush_interval'' (\<lambda>v. py_le_int v 0)) (\<lambda>bad.
              if bad then invalid_config ''flush_interval must be positive''
              else
                and_then (present_and d ''max_queue_size'' (\<lambda>v. py_le_int v 0)) (\<lambda>bad.
                if bad then invalid_config ''max_queue_size must be positive''
                else
                  and_then (present_and d ''max_retries'' (\<lambda>v. py_lt_int v 0)) (\<lambda>bad.
                  if bad then invalid_config ''max_retries must be non-negative''
                  else merge_defaults d))))))))"

section \<open>A parser to evaluate with\<close>

text \<open>
  The theorems below hold for every parser. Where a concrete configuration is
  evaluated, this parser stands for the library's. It splits a string by the generic
  URL syntax: the scheme is what stands before the first colon when that starts with a
  letter and consists of letters, digits, \<^verbatim>\<open>+\<close>, \<^verbatim>\<open>-\<close> and \<^verbatim>\<open>.\<close>; the network
  location is what follows a leading \<^verbatim>\<open>//\<close> up to the next \<^verbatim>\<open>/\<close>, \<^verbatim>\<open>?\<close> or
  \<^verbatim>\<open>#\<close>; a network location with one square bracket but not the other is a
  \<^verbatim>\<open>ValueError\<close>. It is not the library's function: it does not strip leading blanks
  or remove tabs and line breaks, does not lower-case the scheme and does not validate
  a bracketed host. On the strings evaluated below the two agree on whether the scheme
  and the network location are empty.
\<close>

definition is_alpha :: "char \<Rightarrow> bool" where
  "is_alpha c = (in_range c (CHR ''A'', CHR ''Z'') \<or> in_range c (CHR ''a'', CHR ''z''))"

definition scheme_char :: "char \<Rightarrow> bool" where
  "scheme_char c = (is_alpha c \<or> in_range c (CHR ''0'', CHR ''9'') \<or> c \<in> set ''+-.'')"

definition generic_urlsplit :: url_parser where
  "generic_urlsplit url =
     (let pre = takeWhile (\<lambda>c. c \<noteq> CHR '':'') url;
          has_scheme = (CHR '':'' \<in> set url \<and> pre \<noteq> [] \<and> is_alpha (hd pre)
                          \<and> list_all scheme_char pre);
          rest = (if has_scheme then drop (length pre + 1) url else url);
          net = (if take 2 rest = ''//''
                 then takeWhile (\<lambda>c. c \<notin> set ''/?#'') (drop 2 rest) else [])
      in if (CHR ''['' \<in> set net) \<noteq> (CHR '']'' \<in> set net) then None
         else Some \<lparr>scheme = (if has_scheme then pre else []), netloc = net\<rparr>)"

section \<open>The specification's notions\<close>

text \<open>
  The shape of an API key in the specification's words: the prefix \<^verbatim>\<open>lw_\<close> followed
  by exactly 32 characters, each a letter, a digit, a hyphen or an underscore.
\<close>

definition is_digit :: "char \<Rightarrow> bool" where
  "is_digit c = in_range c (CHR ''0'', CHR ''9'')"

definition spec_key_char :: "char \<Rightarrow> bool" where
  "spec_key_char c = (is_alpha c \<or> is_digit c \<or> c = CHR ''-'' \<or> c = CHR ''_'')"

definition spec_api_key_shape :: "string \<Rightarrow> bool" where
  "spec_api_key_shape s =
     (take 3 s = ''lw_'' \<and> length s = 35 \<and> list_all spec_key_char (drop 3 s))"

text \<open>
  A valid absolute URL: a non-empty string that the parser splits into a non-empty
  scheme and a non-empty network location.
\<close>

definition spec_absolute_url :: "url_parser \<Rightarrow> pyval \<Rightarrow> bool" where
  "spec_absolute_url parser v =
     (case v of
        PStr u \<Rightarrow> u \<noteq> [] \<and>
          (case parser u of None \<Rightarrow> False | Some r \<Rightarrow> scheme r \<noteq> [] \<and> netloc r \<noteq> [])
      | _ \<Rightarrow> False)"

text \<open>The first four checks pass: both required fields are there and valid.\<close>

definition required_fields_valid :: "url_parser \<Rightarrow> config \<Rightarrow> bool" where
  "required_fields_valid parser d =
     (case (d ''api_key'', d ''endpoint'') of
        (Some api_key, Some endpoint) \<Rightarrow>
           validate_api_key_format api_key \<and> truthy endpoint
           \<and> is_valid_url parser endpoint = Inr True
      | _ \<Rightarrow> False)"

text \<open>
  The eight checks of section 4.1 in their order, each with what violates it and its
  reason: a required field is absent or false; the key is there and fails the format;
  the endpoint is there and the URL predicate is false of it; a numeric field is there
  and \<^verbatim>\<open><= 0\<close> (for \<^verbatim>\<open>max_retries\<close>, \<^verbatim>\<open>< 0\<close>) is true of it. The first violated
  check is the first pair whose flag is true.
\<close>

definition holds_at :: "config \<Rightarrow> string \<Rightarrow> (pyval \<Rightarrow> bool) \<Rightarrow> bool" where
  "holds_at d k P = (case d k of None \<Rightarrow> False | Some v \<Rightarrow> P v)"

definition spec_checks :: "url_parser \<Rightarrow> config \<Rightarrow> (bool \<times> string) list" where
  "spec_checks parser d =
     [(absent_or_false d ''api_key'', ''api_key is required''),
      (absent_or_false d ''endpoint'', ''endpoint is required''),
      (holds_at d ''api_key'' (\<lambda>k. \<not> validate_api_key_format k),
         ''Invalid API key format. Expected: lw_[32 characters]''),
      (holds_at d ''endpoint'' (\<lambda>u. is_valid_url parser u = Inr False),
         ''Invalid endpoint URL''),
      (holds_at d ''batch_size'' (\<lambda>v. py_le_int v 0 = Inr True),
         ''batch_size must be positive''),
      (holds_at d ''flush_interval'' (\<lambda>v. py_le_int v 0 = Inr True),
         ''flush_interval must be positive''),
      (holds_at d ''max_queue_size'' (\<lambda>v. py_le_int v 0 = Inr True),
         ''max_queue_size must be positive''),
      (holds_at d ''max_retries'' (\<lambda>v. py_lt_int v 0 = Inr True),
         ''max_retries must be non-negative'')]"

fun first_violated :: "(bool \<times> string) list \<Rightarrow> string option" where
  "first_violated [] = None"
| "first_violated ((violated, msg) # checks) =
     (if violated then Some msg else first_violated checks)"

definition spec_first_violation :: "url_parser \<Rightarrow> config \<Rightarrow> string option" where
  "spec_first_violation parser d = first_violated (spec_checks parser d)"

text \<open>The reasons of section 4.1, in the order of the checks.\<close>

definition config_messages :: "string list" where
  "config_messages =
     [''api_key is required'',
      ''endpoint is required'',
      ''Invalid API key format. Expected: lw_[32 characters]'',
      ''Invalid endpoint URL'',
      ''batch_size must be positive'',
      ''flush_interval must be positive'',
      ''max_queue_size must be positive'',
      ''max_retries must be non-negative'']"

text \<open>The types of the data model. A Python boolean is an integer (0 or 1).\<close>

fun int_value :: "pyval \<Rightarrow> int option" where
  "int_value (PInt i) = Some i"
| "int_value (PBool b) = Some (if b then 1 else 0)"
| "int_value _ = None"

fun is_number :: "pyval \<Rightarrow> bool" where
  "is_number (PInt _) = True"
| "is_number (PBool _) = True"
| "is_number (PFloat _) = True"
| "is_number _ = False"

fun is_bool :: "pyval \<Rightarrow> bool" where
  "is_bool (PBool _) = True"
| "is_bool _ = False"

definition spec_positive_integer :: "pyval \<Rightarrow> bool" where
  "spec_positive_integer v = (case int_value v of Some i \<Rightarrow> 0 < i | None \<Rightarrow> False)"

definition spec_non_negative_integer :: "pyval \<Rightarrow> bool" where
  "spec_non_negative_integer v = (case int_value v of Some i \<Rightarrow> 0 \<le> i | None \<Rightarrow> False)"

fun spec_positive_number :: "pyval \<Rightarrow> bool" where
  "spec_positive_number (PFloat (Finite r)) = (0 < r)"
| "spec_positive_number (PFloat PosInf) = True"
| "spec_positive_number (PFloat _) = False"
| "spec_positive_number v = spec_positive_integer v"

definition absent_or :: "config \<Rightarrow> string \<Rightarrow> (pyval \<Rightarrow> bool) \<Rightarrow> bool" where
  "absent_or d k P = (case d k of None \<Rightarrow> True | Some v \<Rightarrow> P v)"

text \<open>A normalized configuration with valid, fully-typed values for the core fields.\<close>

definition spec_fully_typed :: "url_parser \<Rightarrow> config \<Rightarrow> bool" where
  "spec_fully_typed parser out =
     (holds_at out ''api_key'' isinstance_str
      \<and> holds_at out ''endpoint'' (spec_absolute_url parser)
      \<and> holds_at out ''batch_size'' spec_positive_integer
      \<and> holds_at out ''flush_interval'' spec_positive_number
      \<and> holds_at out ''max_queue_size'' spec_positive_integer
      \<and> holds_at out ''max_retries'' spec_non_negative_integer
      \<and> holds_at out ''capture_source_location'' is_bool)"

text \<open>The optional fields of an input have the types the data model declares.\<close>

fun is_integer :: "pyval \<Rightarrow> bool" where
  "is_integer v = (int_value v \<noteq> None)"

fun is_integer_or_ordered_float :: "pyval \<Rightarrow> bool" where
  "is_integer_or_ordered_float (PFloat NaN) = False"
| "is_integer_or_ordered_float (PFloat _) = True"
| "is_integer_or_ordered_float v = is_integer v"

definition optional_fields_typed :: "config \<Rightarrow> bool" where
  "optional_fields_typed d =
     (absent_or d ''batch_size'' is_integer
      \<and> absent_or d ''flush_interval'' is_integer_or_ordered_float
      \<and> absent_or d ''max_queue_size'' is_integer
      \<and> absent_or d ''max_retries'' is_integer
      \<and> absent_or d ''capture_source_location'' is_bool)"

definition numeric_fields_are_numbers :: "config \<Rightarrow> bool" where
  "numeric_fields_are_numbers d =
     list_all (\<lambda>k. absent_or d k is_number)
       [''batch_size'', ''flush_interval'', ''max_queue_size'', ''max_retries'']"

definition recognized_keys :: "string list" where
  "recognized_keys =
     [''api_key'', ''endpoint'', ''batch_size'', ''flush_interval'', ''max_queue_size'',
      ''max_retries'', ''capture_source_location'', ''service'', ''on_error'', ''on_flush'']"

section \<open>Example 1 of the specification\<close>

definition example_key :: string where
  "example_key = ''lw_aaaaaaaaaaaaaaaaaaaaaaaaaaaaaaaa''"

definition example_config :: config where
  "example_config =
     [''api_key'' \<mapsto> PStr example_key, ''endpoint'' \<mapsto> PStr ''https://ingest.example.com'']"

text \<open>What validation makes of Example 1, and of Example 5 (a service name added).\<close>

definition example_normalized :: config where
  "example_normalized =
     [''api_key'' \<mapsto> PStr example_key,
      ''endpoint'' \<mapsto> PStr ''https://ingest.example.com'',
      ''batch_size'' \<mapsto> PInt 50,
      ''flush_interval'' \<mapsto> PFloat (Finite 5),
      ''max_queue_size'' \<mapsto> PInt 1000,
      ''max_retries'' \<mapsto> PInt 3,
      ''capture_source_location'' \<mapsto> PBool False]"

text \<open>Example 1 with the five optional core fields supplied.\<close>

definition example_tuned :: config where
  "example_tuned =
     example_config
       (''batch_size'' \<mapsto> PInt 10,
        ''flush_interval'' \<mapsto> PFloat (Finite (5 / 2)),
        ''max_queue_size'' \<mapsto> PInt 500,
        ''max_retries'' \<mapsto> PInt 0,
        ''capture_source_location'' \<mapsto> PBool True)"

section \<open>Properties\<close>

subsection \<open>The API key pattern\<close>

text \<open>A counted repetition consumes exactly that many characters of the class.\<close>

lemma repeat_match:
  "re_match_here (Repeat a n # r) st s =
     (n \<le> length s \<and> list_all (atom_matches a) (take n s)
      \<and> re_match_here r (st \<and> n = 0) (drop n s))"
proof (induction n arbitrary: s st)
  case 0
  then show ?case by simp
next
  case (Suc n)
  then show ?case by (cases s) auto
qed

lemma in_range_single: "in_range c (l, l) = (c = l)"
proof -
  have "in_range c (l, l) = ((of_char c :: nat) = of_char l)" by auto
  then show ?thesis by (simp only: of_char_eq_iff)
qed

lemma class_matches_key_char:
  "atom_matches (Class [(CHR ''A'', CHR ''Z''), (CHR ''a'', CHR ''z''), (CHR ''0'', CHR ''9''),
                     (CHR ''_'', CHR ''_''), (CHR ''-'', CHR ''-'')]) = spec_key_char"
  by (rule ext) (auto simp: spec_key_char_def is_alpha_def is_digit_def in_range_single
      simp del: in_range.simps)

lemma api_key_regex_match:
  "re_match API_KEY_REGEX s =
     (take 3 s = ''lw_'' \<and> 35 \<le> length s \<and> list_all spec_key_char (take 32 (drop 3 s))
      \<and> (drop 35 s = [] \<or> drop 35 s = [CHR 0x0A]))"
  by (auto simp: re_match_def API_KEY_REGEX_def repeat_match class_matches_key_char
        simp del: atom_matches.simps(2) split: list.splits)

lemma spec_shape_accepted:
  "spec_api_key_shape s \<Longrightarrow> validate_api_key_format (PStr s)"
  by (auto simp: api_key_regex_match spec_api_key_shape_def)

text \<open>
  The values the predicate accepts: the strings of the specified shape, and those
  followed by one newline. Every other value, the empty string and every value that is
  not a string among them, is rejected.
\<close>

lemma validate_api_key_format_iff:
  "validate_api_key_format v =
     (\<exists>s. v = PStr s \<and> (spec_api_key_shape s \<or> (\<exists>t. spec_api_key_shape t \<and> s = t @ [CHR 0x0A])))"
proof (cases v)
  case (PStr s)
  have "re_match API_KEY_REGEX s =
          (spec_api_key_shape s \<or> (\<exists>t. spec_api_key_shape t \<and> s = t @ [CHR 0x0A]))"
  proof
    assume m: "re_match API_KEY_REGEX s"
    then have h: "take 3 s = ''lw_''" "35 \<le> length s" "list_all spec_key_char (take 32 (drop 3 s))"
      "drop 35 s = [] \<or> drop 35 s = [CHR 0x0A]"
      by (simp_all add: api_key_regex_match)
    from h(4) show "spec_api_key_shape s \<or> (\<exists>t. spec_api_key_shape t \<and> s = t @ [CHR 0x0A])"
    proof
      assume "drop 35 s = []"
      with h have "spec_api_key_shape s" by (simp add: spec_api_key_shape_def)
      then show ?thesis ..
    next
      assume d: "drop 35 s = [CHR 0x0A]"
      have s: "s = take 35 s @ [CHR 0x0A]" using append_take_drop_id [of 35 s] d by simp
      have "length (drop 35 s) = 1" using d by simp
      then have "length s = 36" using h(2) by simp
      then have "spec_api_key_shape (take 35 s)"
        using h by (simp add: spec_api_key_shape_def drop_take)
      with s show ?thesis by blast
    qed
  next
    assume "spec_api_key_shape s \<or> (\<exists>t. spec_api_key_shape t \<and> s = t @ [CHR 0x0A])"
    then show "re_match API_KEY_REGEX s"
      by (auto simp: api_key_regex_match spec_api_key_shape_def)
  qed
  with PStr show ?thesis by (auto simp: api_key_regex_match)
qed simp_all



subsection \<open>Validation\<close>

text \<open>The URL predicate returns a boolean on every value.\<close>

lemma is_valid_url_total: "\<exists>b. is_valid_url parser v = Inr b"
  by (cases v) (auto simp: is_valid_url_def urlparse_def parse_str_def split: option.splits)

lemma key_format_truthy: "validate_api_key_format v \<Longrightarrow> truthy v"
  by (simp split: if_splits)

lemma merge_defaults_eq:
  assumes "d ''api_key'' = Some k" and "d ''endpoint'' = Some u"
  shows "merge_defaults d =
     Inr (copy_if_present d ''on_flush''
           (copy_if_present d ''on_error''
           (copy_if_present d ''service''
             [''api_key'' \<mapsto> k,
              ''endpoint'' \<mapsto> u,
              ''batch_size'' \<mapsto> dict_get d ''batch_size'' (PInt 50),
              ''flush_interval'' \<mapsto> dict_get d ''flush_interval'' (PFloat (Finite 5)),
              ''max_queue_size'' \<mapsto> dict_get d ''max_queue_size'' (PInt 1000),
              ''max_retries'' \<mapsto> dict_get d ''max_retries'' (PInt 3),
              ''capture_source_location'' \<mapsto>
                 dict_get d ''capture_source_location'' (PBool False)])))"
  using assms by (simp add: merge_defaults_def and_then_def getitem_def DEFAULT_CONFIG_def)

text \<open>Success is exactly the passing of all eight checks, and the result is the merge.\<close>

lemma validate_config_passes:
  assumes "required_fields_valid parser d"
    and "present_and d ''batch_size'' (\<lambda>v. py_le_int v 0) = Inr False"
    and "present_and d ''flush_interval'' (\<lambda>v. py_le_int v 0) = Inr False"
    and "present_and d ''max_queue_size'' (\<lambda>v. py_le_int v 0) = Inr False"
    and "present_and d ''max_retries'' (\<lambda>v. py_lt_int v 0) = Inr False"
  shows "validate_config parser d = merge_defaults d"
  using assms
  by (auto simp: validate_config_def required_fields_valid_def absent_or_false_def
      and_then_def getitem_def simp del: validate_api_key_format.simps
      dest: key_format_truthy split: option.splits)

lemma validate_config_InrD:
  assumes "validate_config parser d = Inr out"
  shows "required_fields_valid parser d"
    and "present_and d ''batch_size'' (\<lambda>v. py_le_int v 0) = Inr False"
    and "present_and d ''flush_interval'' (\<lambda>v. py_le_int v 0) = Inr False"
    and "present_and d ''max_queue_size'' (\<lambda>v. py_le_int v 0) = Inr False"
    and "present_and d ''max_retries'' (\<lambda>v. py_lt_int v 0) = Inr False"
    and "merge_defaults d = Inr out"
  using assms
  by (auto simp: validate_config_def required_fields_valid_def absent_or_false_def
      and_then_def getitem_def invalid_config_def simp del: validate_api_key_format.simps
      split: option.splits if_splits sum.splits)


text \<open>The merged configuration, key by key.\<close>

lemma merge_defaults_lookup:
  assumes "merge_defaults d = Inr out"
  shows "out k =
     (if k \<in> {''api_key'', ''endpoint'', ''service'', ''on_error'', ''on_flush''} then d k
      else if k = ''batch_size'' then Some (dict_get d k (PInt 50))
      else if k = ''flush_interval'' then Some (dict_get d k (PFloat (Finite 5)))
      else if k = ''max_queue_size'' then Some (dict_get d k (PInt 1000))
      else if k = ''max_retries'' then Some (dict_get d k (PInt 3))
      else if k = ''capture_source_location'' then Some (dict_get d k (PBool False))
      else None)"
proof -
  from assms obtain a u where au: "d ''api_key'' = Some a" "d ''endpoint'' = Some u"
    by (auto simp: merge_defaults_def and_then_def getitem_def split: option.splits)
  from assms have "out = copy_if_present d ''on_flush''
           (copy_if_present d ''on_error''
           (copy_if_present d ''service''
             [''api_key'' \<mapsto> a,
              ''endpoint'' \<mapsto> u,
              ''batch_size'' \<mapsto> dict_get d ''batch_size'' (PInt 50),
              ''flush_interval'' \<mapsto> dict_get d ''flush_interval'' (PFloat (Finite 5)),
              ''max_queue_size'' \<mapsto> dict_get d ''max_queue_size'' (PInt 1000),
              ''max_retries'' \<mapsto> dict_get d ''max_retries'' (PInt 3),
              ''capture_source_location'' \<mapsto>
                 dict_get d ''capture_source_location'' (PBool False)]))"
    by (simp add: merge_defaults_eq [OF au])
  then show ?thesis
    using au by (auto simp: copy_if_present_def split: option.splits)
qed

theorem C9_passthrough:
  assumes "validate_config parser d = Inr out"
  shows "out ''service'' = d ''service'' \<and> out ''on_error'' = d ''on_error''
         \<and> out ''on_flush'' = d ''on_flush''"
  using merge_defaults_lookup [OF validate_config_InrD(6) [OF assms]] by simp


lemma example_key_shape: "spec_api_key_shape example_key"
  by (simp add: spec_api_key_shape_def example_key_def spec_key_char_def is_alpha_def)

lemma example_endpoint_parse:
  "generic_urlsplit ''https://ingest.example.com'' =
     Some \<lparr>scheme = ''https'', netloc = ''ingest.example.com''\<rparr>"
  by (simp add: generic_urlsplit_def Let_def is_alpha_def scheme_char_def)

lemma example_required_valid:
  "d ''api_key'' = Some (PStr example_key) \<Longrightarrow>
   d ''endpoint'' = Some (PStr ''https://ingest.example.com'') \<Longrightarrow>
   required_fields_valid generic_urlsplit d"
  using spec_shape_accepted [OF example_key_shape]
  by (simp add: required_fields_valid_def is_valid_url_def urlparse_def parse_str_def
      example_endpoint_parse)


lemma example_validates:
  "validate_config generic_urlsplit example_config = Inr example_normalized"
proof -
  have "validate_config generic_urlsplit example_config = merge_defaults example_config"
    by (rule validate_config_passes)
       (simp_all add: example_required_valid example_config_def present_and_def)
  then show ?thesis
    by (simp add: merge_defaults_def and_then_def getitem_def DEFAULT_CONFIG_def
        example_config_def example_normalized_def copy_if_present_def dict_get_def)
qed

lemma example_service_validates:
  "validate_config generic_urlsplit (example_config(''service'' \<mapsto> PStr ''checkout'')) =
     Inr (example_normalized(''service'' \<mapsto> PStr ''checkout''))"
proof -
  let ?d = "example_config(''service'' \<mapsto> PStr ''checkout'')"
  have "validate_config generic_urlsplit ?d = merge_defaults ?d"
    by (rule validate_config_passes)
       (simp_all add: example_required_valid example_config_def present_and_def)
  then show ?thesis
    by (simp add: merge_defaults_def and_then_def getitem_def DEFAULT_CONFIG_def
        example_config_def example_normalized_def copy_if_present_def dict_get_def)
qed

text \<open>Example 5: the service name is carried over, the two hooks stay absent.\<close>

theorem C9_passthrough_witness:
  "validate_config generic_urlsplit (example_config(''service'' \<mapsto> PStr ''checkout''))
     = Inr (example_normalized(''service'' \<mapsto> PStr ''checkout''))
   \<and> (example_normalized(''service'' \<mapsto> PStr ''checkout'')) ''service'' = Some (PStr ''checkout'')
   \<and> (example_normalized(''service'' \<mapsto> PStr ''checkout'')) ''on_error'' = None
   \<and> (example_normalized(''service'' \<mapsto> PStr ''checkout'')) ''on_flush'' = None"
  using C9_passthrough [OF example_service_validates] example_service_validates
  by (simp add: example_config_def)


lemma validate_config_cong:
  assumes "\<And>key. key \<in> set recognized_keys \<Longrightarrow> d' key = d key"
  shows "validate_config parser d' = validate_config parser d"
proof -
  have e: "d' ''api_key'' = d ''api_key''" "d' ''endpoint'' = d ''endpoint''"
    "d' ''batch_size'' = d ''batch_size''" "d' ''flush_interval'' = d ''flush_interval''"
    "d' ''max_queue_size'' = d ''max_queue_size''" "d' ''max_retries'' = d ''max_retries''"
    "d' ''capture_source_location'' = d ''capture_source_location''"
    "d' ''service'' = d ''service''" "d' ''on_error'' = d ''on_error''"
    "d' ''on_flush'' = d ''on_flush''"
    by (simp_all add: assms recognized_keys_def)
  show ?thesis
    by (simp add: validate_config_def absent_or_false_def getitem_def
        present_and_def merge_defaults_def copy_if_present_def dict_get_def e cong: if_cong)
qed

text \<open>
  Claim C10. On every input on which \<^verbatim>\<open>validate_config\<close> succeeds, the output has no
  key beyond the seven core fields and \<^verbatim>\<open>service\<close>, \<^verbatim>\<open>on_error\<close>, \<^verbatim>\<open>on_flush\<close>;
  a key the module does not know is dropped without an error: supplying it, with any
  value, changes neither the success nor the output.
\<close>

theorem C10_no_other_keys:
  assumes "validate_config parser d = Inr out"
  shows "dom out \<subseteq> set recognized_keys
         \<and> (\<forall>k v. k \<notin> set recognized_keys \<longrightarrow>
                out k = None \<and> validate_config parser (d(k \<mapsto> v)) = Inr out)"
proof -
  note lk = merge_defaults_lookup [OF validate_config_InrD(6) [OF assms]]
  have sub: "dom out \<subseteq> set recognized_keys"
  proof
    fix k assume "k \<in> dom out"
    then have "out k \<noteq> None" by auto
    then show "k \<in> set recognized_keys"
      unfolding lk [of k] recognized_keys_def by (auto split: if_splits)
  qed
  have "validate_config parser (d(k \<mapsto> v)) = validate_config parser d"
    if "k \<notin> set recognized_keys" for k v
    using that by (intro validate_config_cong) auto
  with sub assms show ?thesis by auto
qed

text \<open>Example 1 with a key the module does not know: the output is Example 1's.\<close>

theorem C10_no_other_keys_witness:
  "validate_config generic_urlsplit example_config = Inr example_normalized
   \<and> dom example_normalized \<subseteq> set recognized_keys
   \<and> example_normalized ''region'' = None
   \<and> validate_config generic_urlsplit (example_config(''region'' \<mapsto> PStr ''eu'')) =
        Inr example_normalized"
proof -
  have "''region'' \<notin> set recognized_keys" by (simp add: recognized_keys_def)
  with C10_no_other_keys [OF example_validates] example_validates show ?thesis by blast
qed


lemma present_and_merged:
  assumes "present_and d k cmp = Inr False" and "cmp dflt = Inr False"
    and "out k = Some (dict_get d k dflt)"
  shows "present_and out k cmp = Inr False"
  using assms by (simp add: present_and_def dict_get_def split: option.splits)

text \<open>
  Claim C8. \<^verbatim>\<open>validate_config\<close> is idempotent: on every input on which it succeeds,
  validating the returned configuration succeeds again and returns that same
  configuration.
\<close>

theorem C8_idempotent:
  assumes "validate_config parser d = Inr out"
  shows "validate_config parser out = Inr out"
proof -
  note ok = validate_config_InrD [OF assms]
  note lk = merge_defaults_lookup [OF ok(6)]
  have req: "required_fields_valid parser out"
    using ok(1) by (simp add: required_fields_valid_def lk)
  have "validate_config parser out = merge_defaults out"
  proof (rule validate_config_passes [OF req])
    show "present_and out ''batch_size'' (\<lambda>v. py_le_int v 0) = Inr False"
      by (rule present_and_merged [OF ok(2), where dflt = "PInt 50"]) (simp_all add: lk)
    show "present_and out ''flush_interval'' (\<lambda>v. py_le_int v 0) = Inr False"
      by (rule present_and_merged [OF ok(3), where dflt = "PFloat (Finite 5)"])
         (simp_all add: lk)
    show "present_and out ''max_queue_size'' (\<lambda>v. py_le_int v 0) = Inr False"
      by (rule present_and_merged [OF ok(4), where dflt = "PInt 1000"]) (simp_all add: lk)
    show "present_and out ''max_retries'' (\<lambda>v. py_lt_int v 0) = Inr False"
      by (rule present_and_merged [OF ok(5), where dflt = "PInt 3"]) (simp_all add: lk)
  qed
  moreover from req obtain a u where au: "out ''api_key'' = Some a" "out ''endpoint'' = Some u"
    by (auto simp: required_fields_valid_def split: option.splits)
  then obtain out' where out': "merge_defaults out = Inr out'"
    using merge_defaults_eq [OF au] by blast
  moreover have "out' = out"
  proof (rule ext)
    fix k
    show "out' k = out k"
      unfolding merge_defaults_lookup [OF out', of k]
      by (simp add: lk dict_get_def)
  qed
  ultimately show ?thesis by simp
qed

text \<open>Example 1: its normalized configuration validates to itself.\<close>

theorem C8_idempotent_witness:
  "validate_config generic_urlsplit example_config = Inr example_normalized
   \<and> validate_config generic_urlsplit example_normalized = Inr example_normalized"
  using C8_idempotent [OF example_validates] example_validates by simp

text \<open>
  Claim C1. Every configuration whose API key has the required shape, whose endpoint
  is a valid absolute URL and which leaves out the five optional core fields validates,
  and the result holds the documented defaults: \<^verbatim>\<open>batch_size\<close> 50,
  \<^verbatim>\<open>flush_interval\<close> 5.0, \<^verbatim>\<open>max_queue_size\<close> 1000, \<^verbatim>\<open>max_retries\<close> 3 and
  \<^verbatim>\<open>capture_source_location\<close> false.
\<close>

theorem C1_defaults:
  assumes "d ''api_key'' = Some (PStr key)" and "spec_api_key_shape key"
    and "d ''endpoint'' = Some endpoint" and "spec_absolute_url parser endpoint"
    and "d ''batch_size'' = None" and "d ''flush_interval'' = None"
    and "d ''max_queue_size'' = None" and "d ''max_retries'' = None"
    and "d ''capture_source_location'' = None"
  shows "\<exists>out. validate_config parser d = Inr out
           \<and> out ''batch_size'' = Some (PInt 50)
           \<and> out ''flush_interval'' = Some (PFloat (Finite 5))
           \<and> out ''max_queue_size'' = Some (PInt 1000)
           \<and> out ''max_retries'' = Some (PInt 3)
           \<and> out ''capture_source_location'' = Some (PBool False)"
proof -
  have url: "truthy endpoint \<and> is_valid_url parser endpoint = Inr True"
    using assms(4)
    by (auto simp: spec_absolute_url_def is_valid_url_def urlparse_def parse_str_def
        split: pyval.splits option.splits)
  have req: "required_fields_valid parser d"
    using assms(1,3) spec_shape_accepted [OF assms(2)] url
    by (simp add: required_fields_valid_def)
  have "validate_config parser d = merge_defaults d"
    by (rule validate_config_passes [OF req]) (simp_all add: present_and_def assms)
  moreover obtain out where out: "merge_defaults d = Inr out"
    using merge_defaults_eq [OF assms(1,3)] by blast
  ultimately show ?thesis
    using merge_defaults_lookup [OF out] by (simp add: dict_get_def assms)
qed

text \<open>Example 1 of the specification.\<close>

theorem C1_defaults_witness:
  "spec_api_key_shape example_key
   \<and> spec_absolute_url generic_urlsplit (PStr ''https://ingest.example.com'')
   \<and> (\<exists>out. validate_config generic_urlsplit example_config = Inr out
           \<and> out ''batch_size'' = Some (PInt 50)
           \<and> out ''flush_interval'' = Some (PFloat (Finite 5))
           \<and> out ''max_queue_size'' = Some (PInt 1000)
           \<and> out ''max_retries'' = Some (PInt 3)
           \<and> out ''capture_source_location'' = Some (PBool False))"
proof -
  have u: "spec_absolute_url generic_urlsplit (PStr ''https://ingest.example.com'')"
    by (simp add: spec_absolute_url_def example_endpoint_parse)
  show ?thesis
    using example_key_shape u
      C1_defaults [of example_config example_key "PStr ''https://ingest.example.com''"
        generic_urlsplit, OF _ example_key_shape _ u]
    by (simp add: example_config_def)
qed


subsection \<open>The checks, one by one\<close>

lemma reject_api_key_required:
  "absent_or_false d ''api_key'' \<Longrightarrow>
   validate_config parser d = Inl (LogwellError ''api_key is required'' INVALID_CONFIG)"
  by (simp add: validate_config_def invalid_config_def)

lemma reject_endpoint_required:
  "\<not> absent_or_false d ''api_key'' \<Longrightarrow> absent_or_false d ''endpoint'' \<Longrightarrow>
   validate_config parser d = Inl (LogwellError ''endpoint is required'' INVALID_CONFIG)"
  by (simp add: validate_config_def invalid_config_def)

lemma reject_key_format:
  "\<not> absent_or_false d ''api_key'' \<Longrightarrow> \<not> absent_or_false d ''endpoint'' \<Longrightarrow>
   holds_at d ''api_key'' (\<lambda>k. \<not> validate_api_key_format k) \<Longrightarrow>
   validate_config parser d =
     Inl (LogwellError ''Invalid API key format. Expected: lw_[32 characters]'' INVALID_CONFIG)"
  by (auto simp: validate_config_def invalid_config_def holds_at_def and_then_def getitem_def
      simp del: validate_api_key_format.simps split: option.splits)

lemma reject_endpoint_url:
  "\<not> absent_or_false d ''endpoint'' \<Longrightarrow>
   holds_at d ''api_key'' validate_api_key_format \<Longrightarrow>
   holds_at d ''endpoint'' (\<lambda>u. is_valid_url parser u = Inr False) \<Longrightarrow>
   validate_config parser d = Inl (LogwellError ''Invalid endpoint URL'' INVALID_CONFIG)"
  by (auto simp: validate_config_def invalid_config_def holds_at_def and_then_def getitem_def
      absent_or_false_def simp del: validate_api_key_format.simps
      dest: key_format_truthy split: option.splits)

lemma numeric_checks:
  assumes "required_fields_valid parser d"
  shows "validate_config parser d =
     and_then (present_and d ''batch_size'' (\<lambda>v. py_le_int v 0)) (\<lambda>bad.
     if bad then invalid_config ''batch_size must be positive''
     else
       and_then (present_and d ''flush_interval'' (\<lambda>v. py_le_int v 0)) (\<lambda>bad.
       if bad then invalid_config ''flush_interval must be positive''
       else
         and_then (present_and d ''max_queue_size'' (\<lambda>v. py_le_int v 0)) (\<lambda>bad.
         if bad then invalid_config ''max_queue_size must be positive''
         else
           and_then (present_and d ''max_retries'' (\<lambda>v. py_lt_int v 0)) (\<lambda>bad.
           if bad then invalid_config ''max_retries must be non-negative''
           else merge_defaults d))))"
proof -
  from assms obtain a u where au: "d ''api_key'' = Some a" "d ''endpoint'' = Some u"
    and ok: "validate_api_key_format a" "truthy u" "is_valid_url parser u = Inr True"
    by (auto simp: required_fields_valid_def split: option.splits)
  have "\<not> absent_or_false d ''api_key''" "\<not> absent_or_false d ''endpoint''"
    using au ok key_format_truthy [OF ok(1)] by (simp_all add: absent_or_false_def)
  then show ?thesis
    using au ok
    by (simp add: validate_config_def and_then_def getitem_def
        del: validate_api_key_format.simps)
qed

lemma reject_batch_size:
  "required_fields_valid parser d \<Longrightarrow>
   present_and d ''batch_size'' (\<lambda>v. py_le_int v 0) = Inr True \<Longrightarrow>
   validate_config parser d = Inl (LogwellError ''batch_size must be positive'' INVALID_CONFIG)"
  by (simp add: numeric_checks and_then_def invalid_config_def)

lemma reject_flush_interval:
  "required_fields_valid parser d \<Longrightarrow>
   present_and d ''batch_size'' (\<lambda>v. py_le_int v 0) = Inr False \<Longrightarrow>
   present_and d ''flush_interval'' (\<lambda>v. py_le_int v 0) = Inr True \<Longrightarrow>
   validate_config parser d =
     Inl (LogwellError ''flush_interval must be positive'' INVALID_CONFIG)"
  by (simp add: numeric_checks and_then_def invalid_config_def)

lemma reject_max_queue_size:
  "required_fields_valid parser d \<Longrightarrow>
   present_and d ''batch_size'' (\<lambda>v. py_le_int v 0) = Inr False \<Longrightarrow>
   present_and d ''flush_interval'' (\<lambda>v. py_le_int v 0) = Inr False \<Longrightarrow>
   present_and d ''max_queue_size'' (\<lambda>v. py_le_int v 0) = Inr True \<Longrightarrow>
   validate_config parser d =
     Inl (LogwellError ''max_queue_size must be positive'' INVALID_CONFIG)"
  by (simp add: numeric_checks and_then_def invalid_config_def)

lemma reject_max_retries:
  "required_fields_valid parser d \<Longrightarrow>
   present_and d ''batch_size'' (\<lambda>v. py_le_int v 0) = Inr False \<Longrightarrow>
   present_and d ''flush_interval'' (\<lambda>v. py_le_int v 0) = Inr False \<Longrightarrow>
   present_and d ''max_queue_size'' (\<lambda>v. py_le_int v 0) = Inr False \<Longrightarrow>
   present_and d ''max_retries'' (\<lambda>v. py_lt_int v 0) = Inr True \<Longrightarrow>
   validate_config parser d =
     Inl (LogwellError ''max_retries must be non-negative'' INVALID_CONFIG)"
  by (simp add: numeric_checks and_then_def invalid_config_def)

lemma accept_all_checks:
  assumes "required_fields_valid parser d"
    and "present_and d ''batch_size'' (\<lambda>v. py_le_int v 0) = Inr False"
    and "present_and d ''flush_interval'' (\<lambda>v. py_le_int v 0) = Inr False"
    and "present_and d ''max_queue_size'' (\<lambda>v. py_le_int v 0) = Inr False"
    and "present_and d ''max_retries'' (\<lambda>v. py_lt_int v 0) = Inr False"
  shows "\<exists>out. validate_config parser d = Inr out"
proof -
  from assms(1) obtain a u where "d ''api_key'' = Some a" "d ''endpoint'' = Some u"
    by (auto simp: required_fields_valid_def split: option.splits)
  then show ?thesis
    using validate_config_passes [OF assms] merge_defaults_eq by simp
qed

lemma bad_key_rejected: "\<not> validate_api_key_format (PStr ''bad-key'')"
  by (simp add: re_match_def API_KEY_REGEX_def)

lemma not_a_url_invalid: "is_valid_url generic_urlsplit (PStr ''not a url'') = Inr False"
  by (simp add: is_valid_url_def urlparse_def parse_str_def generic_urlsplit_def Let_def)

lemma example_endpoint_valid:
  "is_valid_url generic_urlsplit (PStr ''https://ingest.example.com'') = Inr True"
  by (simp add: is_valid_url_def urlparse_def parse_str_def example_endpoint_parse)

lemma present_and_holds:
  "present_and d k cmp = Inr b \<Longrightarrow> holds_at d k (\<lambda>v. cmp v = Inr True) = b"
  by (auto simp: present_and_def holds_at_def split: option.splits)

lemma number_le_total: "is_number v \<Longrightarrow> \<exists>b. py_le_int v n = Inr b"
  by (cases "(v, n)" rule: py_le_int.cases) auto

lemma number_lt_total: "is_number v \<Longrightarrow> \<exists>b. py_lt_int v n = Inr b"
  by (cases "(v, n)" rule: py_lt_int.cases) auto

lemma present_and_le_total:
  "absent_or d k is_number \<Longrightarrow> \<exists>b. present_and d k (\<lambda>v. py_le_int v n) = Inr b"
  by (auto simp: absent_or_def present_and_def number_le_total split: option.splits)

lemma present_and_lt_total:
  "absent_or d k is_number \<Longrightarrow> \<exists>b. present_and d k (\<lambda>v. py_lt_int v n) = Inr b"
  by (auto simp: absent_or_def present_and_def number_lt_total split: option.splits)

lemma numbers_compare:
  assumes "numeric_fields_are_numbers d"
  obtains b1 b2 b3 b4
  where "present_and d ''batch_size'' (\<lambda>v. py_le_int v 0) = Inr b1"
    and "present_and d ''flush_interval'' (\<lambda>v. py_le_int v 0) = Inr b2"
    and "present_and d ''max_queue_size'' (\<lambda>v. py_le_int v 0) = Inr b3"
    and "present_and d ''max_retries'' (\<lambda>v. py_lt_int v 0) = Inr b4"
proof -
  from assms have num: "absent_or d ''batch_size'' is_number"
    "absent_or d ''flush_interval'' is_number"
    "absent_or d ''max_queue_size'' is_number" "absent_or d ''max_retries'' is_number"
    by (simp_all add: numeric_fields_are_numbers_def)
  show ?thesis
    using present_and_le_total [OF num(1), of 0] present_and_le_total [OF num(2), of 0]
      present_and_le_total [OF num(3), of 0] present_and_lt_total [OF num(4), of 0] that
    by blast
qed

text \<open>
  Claim C2 says that on every input the checks run in a fixed order and the failure is
  the \<^verbatim>\<open>InvalidConfig\<close> error of the first violated check. A numeric check compares
  with \<^verbatim>\<open><=\<close> and no type test, so a value that is not a number stops the run of the
  checks with another error: with valid required fields, \<^verbatim>\<open>batch_size\<close> the string
  \<^verbatim>\<open>"10"\<close> and \<^verbatim>\<open>flush_interval\<close> -1, the first violated check is that of
  \<^verbatim>\<open>flush_interval\<close>, and the failure is \<^verbatim>\<open>TypeError\<close>.
\<close>

theorem C2_type_error_before_violation:
  "spec_first_violation generic_urlsplit
     (example_config(''batch_size'' \<mapsto> PStr ''10'', ''flush_interval'' \<mapsto> PInt (- 1))) =
     Some ''flush_interval must be positive''
   \<and> validate_config generic_urlsplit
     (example_config(''batch_size'' \<mapsto> PStr ''10'', ''flush_interval'' \<mapsto> PInt (- 1))) =
     Inl TypeError"
proof
  note key = spec_shape_accepted [OF example_key_shape]
  show "spec_first_violation generic_urlsplit
     (example_config(''batch_size'' \<mapsto> PStr ''10'', ''flush_interval'' \<mapsto> PInt (- 1))) =
     Some ''flush_interval must be positive''"
    using key example_endpoint_valid
    by (simp add: spec_first_violation_def spec_checks_def absent_or_false_def holds_at_def
        example_config_def example_key_def del: validate_api_key_format.simps)
  have "required_fields_valid generic_urlsplit
     (example_config(''batch_size'' \<mapsto> PStr ''10'', ''flush_interval'' \<mapsto> PInt (- 1)))"
    by (intro example_required_valid) (simp_all add: example_config_def)
  then show "validate_config generic_urlsplit
     (example_config(''batch_size'' \<mapsto> PStr ''10'', ''flush_interval'' \<mapsto> PInt (- 1))) =
     Inl TypeError"
    by (simp add: numeric_checks present_and_def and_then_def)
qed

text \<open>
  Claim C2, amended. On every configuration whose numeric fields
  (\<^verbatim>\<open>batch_size\<close>, \<^verbatim>\<open>flush_interval\<close>, \<^verbatim>\<open>max_queue_size\<close>, \<^verbatim>\<open>max_retries\<close>), where
  supplied, are numbers, the checks run in the fixed order: the API key is there and
  not empty, the endpoint is there and not empty, the API key has the format, the
  endpoint is a valid URL, then the bounds of \<^verbatim>\<open>batch_size\<close>,
  \<^verbatim>\<open>flush_interval\<close>, \<^verbatim>\<open>max_queue_size\<close> and \<^verbatim>\<open>max_retries\<close>; validation fails
  with the \<^verbatim>\<open>InvalidConfig\<close> error of the first violated check, and succeeds when
  none is violated. In particular, on every configuration, one without API key and
  endpoint fails with \<^verbatim>\<open>api_key is required\<close>, and one whose API key is there and
  not empty, whatever its format, and whose endpoint is absent or empty fails with
  \<^verbatim>\<open>endpoint is required\<close>.
\<close>

theorem C2_check_order:
  "(numeric_fields_are_numbers d \<longrightarrow>
      (case spec_first_violation parser d of
         Some msg \<Rightarrow> validate_config parser d = Inl (LogwellError msg INVALID_CONFIG)
       | None \<Rightarrow> (\<exists>out. validate_config parser d = Inr out)))
   \<and> (d ''api_key'' = None \<and> d ''endpoint'' = None \<longrightarrow>
      validate_config parser d = Inl (LogwellError ''api_key is required'' INVALID_CONFIG))
   \<and> (holds_at d ''api_key'' truthy
        \<and> (d ''endpoint'' = None \<or> d ''endpoint'' = Some (PStr [])) \<longrightarrow>
      validate_config parser d = Inl (LogwellError ''endpoint is required'' INVALID_CONFIG))"
proof (intro conjI impI)
  assume "d ''api_key'' = None \<and> d ''endpoint'' = None"
  then show "validate_config parser d =
      Inl (LogwellError ''api_key is required'' INVALID_CONFIG)"
    by (intro reject_api_key_required) (simp add: absent_or_false_def)
next
  assume "holds_at d ''api_key'' truthy
    \<and> (d ''endpoint'' = None \<or> d ''endpoint'' = Some (PStr []))"
  then show "validate_config parser d =
      Inl (LogwellError ''endpoint is required'' INVALID_CONFIG)"
    by (intro reject_endpoint_required)
       (auto simp: absent_or_false_def holds_at_def split: option.splits)
next
  assume num: "numeric_fields_are_numbers d"
  let ?goal = "case spec_first_violation parser d of
         Some msg \<Rightarrow> validate_config parser d = Inl (LogwellError msg INVALID_CONFIG)
       | None \<Rightarrow> (\<exists>out. validate_config parser d = Inr out)"
  from num obtain b1 b2 b3 b4
    where bs: "present_and d ''batch_size'' (\<lambda>v. py_le_int v 0) = Inr b1"
      "present_and d ''flush_interval'' (\<lambda>v. py_le_int v 0) = Inr b2"
      "present_and d ''max_queue_size'' (\<lambda>v. py_le_int v 0) = Inr b3"
      "present_and d ''max_retries'' (\<lambda>v. py_lt_int v 0) = Inr b4"
    by (rule numbers_compare)
  note hs = present_and_holds [OF bs(1)] present_and_holds [OF bs(2)]
    present_and_holds [OF bs(3)] present_and_holds [OF bs(4)]
  show ?goal
  proof (cases "absent_or_false d ''api_key''")
    case True
    with reject_api_key_required [OF True, of parser] show ?thesis
      by (simp add: spec_first_violation_def spec_checks_def)
  next
    case k: False
    show ?thesis
    proof (cases "absent_or_false d ''endpoint''")
      case True
      with k reject_endpoint_required [OF k True, of parser] show ?thesis
        by (simp add: spec_first_violation_def spec_checks_def)
    next
      case e: False
      from k e obtain a u where au: "d ''api_key'' = Some a" "d ''endpoint'' = Some u"
        "truthy u"
        by (auto simp: absent_or_false_def split: option.splits)
      obtain b where b: "is_valid_url parser u = Inr b"
        using is_valid_url_total by blast
      have c3: "holds_at d ''api_key'' (\<lambda>k. \<not> validate_api_key_format k) =
          (\<not> validate_api_key_format a)"
        using au by (simp add: holds_at_def del: validate_api_key_format.simps)
      have c4: "holds_at d ''endpoint'' (\<lambda>u. is_valid_url parser u = Inr False) = (\<not> b)"
        using au b by (simp add: holds_at_def)
      show ?thesis
      proof (cases "validate_api_key_format a")
        case False
        with c3 have v: "holds_at d ''api_key'' (\<lambda>k. \<not> validate_api_key_format k)"
          by simp
        from reject_key_format [OF k e v, of parser] k e v show ?thesis
          by (simp add: spec_first_violation_def spec_checks_def
              del: validate_api_key_format.simps)
      next
        case key: True
        with au have hk: "holds_at d ''api_key'' validate_api_key_format"
          by (simp add: holds_at_def del: validate_api_key_format.simps)
        show ?thesis
        proof (cases b)
          case False
          with c4 have v: "holds_at d ''endpoint'' (\<lambda>u. is_valid_url parser u = Inr False)"
            by simp
          from reject_endpoint_url [OF e hk v] k e c3 key v show ?thesis
            by (simp add: spec_first_violation_def spec_checks_def
                del: validate_api_key_format.simps)
        next
          case True
          with au key b have req: "required_fields_valid parser d"
            by (simp add: required_fields_valid_def del: validate_api_key_format.simps)
          from True c3 c4 key k e
          have first4: "spec_first_violation parser d =
              first_violated (drop 4 (spec_checks parser d))"
            by (simp add: spec_first_violation_def spec_checks_def
                del: validate_api_key_format.simps)
          show ?thesis
          proof (cases b1)
            case True
            with bs hs reject_batch_size [OF req] show ?thesis
              by (simp add: first4 spec_checks_def)
          next
            case n1: False
            show ?thesis
            proof (cases b2)
              case True
              with bs hs n1 reject_flush_interval [OF req] show ?thesis
                by (simp add: first4 spec_checks_def)
            next
              case n2: False
              show ?thesis
              proof (cases b3)
                case True
                with bs hs n1 n2 reject_max_queue_size [OF req] show ?thesis
                  by (simp add: first4 spec_checks_def)
              next
                case n3: False
                show ?thesis
                proof (cases b4)
                  case True
                  with bs hs n1 n2 n3 reject_max_retries [OF req] show ?thesis
                    by (simp add: first4 spec_checks_def)
                next
                  case False
                  with bs hs n1 n2 n3 accept_all_checks [OF req] show ?thesis
                    by (simp add: first4 spec_checks_def)
                qed
              qed
            qed
          qed
        qed
      qed
    qed
  qed
qed

lemma example_first_four_pass:
  assumes "d ''api_key'' = Some (PStr example_key)"
    and "d ''endpoint'' = Some (PStr ''https://ingest.example.com'')"
  shows "spec_first_violation generic_urlsplit d =
     first_violated (drop 4 (spec_checks generic_urlsplit d))"
  using assms spec_shape_accepted [OF example_key_shape] example_endpoint_valid
  by (simp add: spec_first_violation_def spec_checks_def absent_or_false_def holds_at_def
      example_key_def del: validate_api_key_format.simps)

text \<open>
  One configuration for each check, among them Examples 2, 3 and 4 of the
  specification, one with two bounds violated, and Example 1, which passes all.
\<close>

theorem C2_check_order_witness:
  "validate_config generic_urlsplit Map.empty =
     Inl (LogwellError ''api_key is required'' INVALID_CONFIG)
   \<and> validate_config generic_urlsplit [''api_key'' \<mapsto> PStr ''bad-key''] =
     Inl (LogwellError ''endpoint is required'' INVALID_CONFIG)
   \<and> validate_config generic_urlsplit
        [''api_key'' \<mapsto> PStr ''bad-key'', ''endpoint'' \<mapsto> PStr ''https://x.com''] =
     Inl (LogwellError ''Invalid API key format. Expected: lw_[32 characters]'' INVALID_CONFIG)
   \<and> validate_config generic_urlsplit (example_config(''endpoint'' \<mapsto> PStr ''not a url'')) =
     Inl (LogwellError ''Invalid endpoint URL'' INVALID_CONFIG)
   \<and> validate_config generic_urlsplit (example_config(''batch_size'' \<mapsto> PInt (- 1))) =
     Inl (LogwellError ''batch_size must be positive'' INVALID_CONFIG)
   \<and> validate_config generic_urlsplit
        (example_config(''batch_size'' \<mapsto> PInt 10, ''flush_interval'' \<mapsto> PFloat (Finite 0),
           ''max_retries'' \<mapsto> PInt (- 1))) =
     Inl (LogwellError ''flush_interval must be positive'' INVALID_CONFIG)
   \<and> validate_config generic_urlsplit (example_config(''max_queue_size'' \<mapsto> PInt 0)) =
     Inl (LogwellError ''max_queue_size must be positive'' INVALID_CONFIG)
   \<and> validate_config generic_urlsplit (example_config(''max_retries'' \<mapsto> PInt (- 1))) =
     Inl (LogwellError ''max_retries must be non-negative'' INVALID_CONFIG)
   \<and> (\<exists>out. validate_config generic_urlsplit example_config = Inr out)"
proof -
  note defs = numeric_fields_are_numbers_def absent_or_def spec_checks_def holds_at_def
    example_config_def
  have 1: "validate_config generic_urlsplit Map.empty =
     Inl (LogwellError ''api_key is required'' INVALID_CONFIG)"
    using C2_check_order [of Map.empty generic_urlsplit, THEN conjunct1]
    by (simp add: numeric_fields_are_numbers_def absent_or_def spec_first_violation_def
        spec_checks_def absent_or_false_def)
  have 2: "validate_config generic_urlsplit [''api_key'' \<mapsto> PStr ''bad-key''] =
     Inl (LogwellError ''endpoint is required'' INVALID_CONFIG)"
    using C2_check_order [of "[''api_key'' \<mapsto> PStr ''bad-key'']" generic_urlsplit,
        THEN conjunct1]
    by (simp add: numeric_fields_are_numbers_def absent_or_def spec_first_violation_def
        spec_checks_def absent_or_false_def)
  have 3: "validate_config generic_urlsplit
        [''api_key'' \<mapsto> PStr ''bad-key'', ''endpoint'' \<mapsto> PStr ''https://x.com''] =
     Inl (LogwellError ''Invalid API key format. Expected: lw_[32 characters]'' INVALID_CONFIG)"
    using C2_check_order [of "[''api_key'' \<mapsto> PStr ''bad-key'',
          ''endpoint'' \<mapsto> PStr ''https://x.com'']" generic_urlsplit, THEN conjunct1]
      bad_key_rejected
    by (simp add: numeric_fields_are_numbers_def absent_or_def spec_first_violation_def
        spec_checks_def absent_or_false_def holds_at_def del: validate_api_key_format.simps)
  have 4: "validate_config generic_urlsplit (example_config(''endpoint'' \<mapsto> PStr ''not a url'')) =
     Inl (LogwellError ''Invalid endpoint URL'' INVALID_CONFIG)"
    using C2_check_order [of "example_config(''endpoint'' \<mapsto> PStr ''not a url'')"
        generic_urlsplit, THEN conjunct1]
      spec_shape_accepted [OF example_key_shape] not_a_url_invalid
    by (simp add: numeric_fields_are_numbers_def absent_or_def spec_first_violation_def
        spec_checks_def absent_or_false_def holds_at_def example_config_def example_key_def
        del: validate_api_key_format.simps)
  have 5: "validate_config generic_urlsplit (example_config(''batch_size'' \<mapsto> PInt (- 1))) =
     Inl (LogwellError ''batch_size must be positive'' INVALID_CONFIG)"
    using C2_check_order [of "example_config(''batch_size'' \<mapsto> PInt (- 1))"
        generic_urlsplit, THEN conjunct1]
    by (simp add: example_first_four_pass defs)
  have 6: "validate_config generic_urlsplit
        (example_config(''batch_size'' \<mapsto> PInt 10, ''flush_interval'' \<mapsto> PFloat (Finite 0),
           ''max_retries'' \<mapsto> PInt (- 1))) =
     Inl (LogwellError ''flush_interval must be positive'' INVALID_CONFIG)"
    using C2_check_order [of "example_config(''batch_size'' \<mapsto> PInt 10,
          ''flush_interval'' \<mapsto> PFloat (Finite 0), ''max_retries'' \<mapsto> PInt (- 1))"
        generic_urlsplit, THEN conjunct1]
    by (simp add: example_first_four_pass defs)
  have 7: "validate_config generic_urlsplit (example_config(''max_queue_size'' \<mapsto> PInt 0)) =
     Inl (LogwellError ''max_queue_size must be positive'' INVALID_CONFIG)"
    using C2_check_order [of "example_config(''max_queue_size'' \<mapsto> PInt 0)"
        generic_urlsplit, THEN conjunct1]
    by (simp add: example_first_four_pass defs)
  have 8: "validate_config generic_urlsplit (example_config(''max_retries'' \<mapsto> PInt (- 1))) =
     Inl (LogwellError ''max_retries must be non-negative'' INVALID_CONFIG)"
    using C2_check_order [of "example_config(''max_retries'' \<mapsto> PInt (- 1))"
        generic_urlsplit, THEN conjunct1]
    by (simp add: example_first_four_pass defs)
  have 9: "\<exists>out. validate_config generic_urlsplit example_config = Inr out"
    using C2_check_order [of example_config generic_urlsplit, THEN conjunct1]
    by (simp add: example_first_four_pass defs)
  from 1 2 3 4 5 6 7 8 9 show ?thesis by (intro conjI)
qed

text \<open>
  Claim C5. The API key predicate is true exactly of the strings
  \<^verbatim>\<open>lw_\<close> followed by exactly 32 characters from letters, digits, hyphen and
  underscore, and false of every value that is not a string or empty. The predicate
  does return false on those, and it accepts every string of the shape. It also
  accepts such a string followed by one newline, 33 characters after the prefix, since
  \<^verbatim>\<open>$\<close> matches before a final newline: on Example 1's key with a newline appended
  the predicate is true, and the string does not have the shape.
\<close>

theorem C5_trailing_newline_accepted:
  "validate_api_key_format (PStr (example_key @ [CHR 0x0A]))
   \<and> \<not> spec_api_key_shape (example_key @ [CHR 0x0A])"
proof
  show "validate_api_key_format (PStr (example_key @ [CHR 0x0A]))"
    unfolding validate_api_key_format_iff using example_key_shape by blast
  show "\<not> spec_api_key_shape (example_key @ [CHR 0x0A])"
    by (simp add: spec_api_key_shape_def example_key_def)
qed


text \<open>
  Claim C3 says that no failure other than \<^verbatim>\<open>InvalidConfig\<close> ever leaves
  \<^verbatim>\<open>validate_config\<close>, a value that is not a number in a numeric field included. The
  bounds are checked with \<^verbatim>\<open><=\<close> and \<^verbatim>\<open><\<close> and no type test: with the string
  \<^verbatim>\<open>"10"\<close> as \<^verbatim>\<open>batch_size\<close>, Example 1 raises \<^verbatim>\<open>TypeError\<close>.
\<close>

theorem C3_type_error_escapes:
  "validate_config generic_urlsplit (example_config(''batch_size'' \<mapsto> PStr ''10'')) =
     Inl TypeError"
proof -
  have "required_fields_valid generic_urlsplit (example_config(''batch_size'' \<mapsto> PStr ''10''))"
    by (intro example_required_valid) (simp_all add: example_config_def)
  then show ?thesis
    by (simp add: numeric_checks present_and_def and_then_def)
qed

text \<open>
  Claim C3, amended. On every configuration whose numeric fields
  (\<^verbatim>\<open>batch_size\<close>, \<^verbatim>\<open>flush_interval\<close>, \<^verbatim>\<open>max_queue_size\<close>, \<^verbatim>\<open>max_retries\<close>), where
  supplied, are numbers (integers, booleans or floats), \<^verbatim>\<open>validate_config\<close> either
  succeeds or fails with \<^verbatim>\<open>InvalidConfig\<close> and one of the eight reasons; whatever
  the other fields hold, no other exception leaves it.
\<close>

theorem C3_only_invalid_config:
  assumes "numeric_fields_are_numbers d"
  shows "(\<exists>out. validate_config parser d = Inr out)
         \<or> (\<exists>msg. msg \<in> set config_messages
                \<and> validate_config parser d = Inl (LogwellError msg INVALID_CONFIG))"
proof -
  let ?fails = "\<lambda>msg. validate_config parser d = Inl (LogwellError msg INVALID_CONFIG)"
  have known: "\<exists>msg. msg \<in> set config_messages \<and> ?fails msg"
    if "?fails m" "m \<in> set config_messages" for m
    using that by blast
  consider (no_key) "absent_or_false d ''api_key''"
    | (no_endpoint) "\<not> absent_or_false d ''api_key''" "absent_or_false d ''endpoint''"
    | (both) "\<not> absent_or_false d ''api_key''" "\<not> absent_or_false d ''endpoint''"
    by blast
  then show ?thesis
  proof cases
    case no_key
    then show ?thesis
      by (intro disjI2 known [OF reject_api_key_required]) (simp_all add: config_messages_def)
  next
    case no_endpoint
    then show ?thesis
      by (intro disjI2 known [OF reject_endpoint_required]) (simp_all add: config_messages_def)
  next
    case both
    then obtain a u where au: "d ''api_key'' = Some a" "d ''endpoint'' = Some u" "truthy u"
      by (auto simp: absent_or_false_def split: option.splits)
    show ?thesis
    proof (cases "validate_api_key_format a")
      case False
      with au both show ?thesis
        by (intro disjI2 known [OF reject_key_format])
           (simp_all add: config_messages_def holds_at_def del: validate_api_key_format.simps)
    next
      case key: True
      obtain b where b: "is_valid_url parser u = Inr b"
        using is_valid_url_total by blast
      show ?thesis
      proof (cases b)
        case False
        with au both key b show ?thesis
          by (intro disjI2 known [OF reject_endpoint_url])
             (simp_all add: config_messages_def holds_at_def
                del: validate_api_key_format.simps)
      next
        case True
        with au key b have req: "required_fields_valid parser d"
          by (simp add: required_fields_valid_def del: validate_api_key_format.simps)
        from assms have num: "absent_or d ''batch_size'' is_number"
          "absent_or d ''flush_interval'' is_number"
          "absent_or d ''max_queue_size'' is_number" "absent_or d ''max_retries'' is_number"
          by (simp_all add: numeric_fields_are_numbers_def)
        obtain b1 b2 b3 b4
          where bs: "present_and d ''batch_size'' (\<lambda>v. py_le_int v 0) = Inr b1"
            "present_and d ''flush_interval'' (\<lambda>v. py_le_int v 0) = Inr b2"
            "present_and d ''max_queue_size'' (\<lambda>v. py_le_int v 0) = Inr b3"
            "present_and d ''max_retries'' (\<lambda>v. py_lt_int v 0) = Inr b4"
          using present_and_le_total [OF num(1), of 0] present_and_le_total [OF num(2), of 0]
            present_and_le_total [OF num(3), of 0] present_and_lt_total [OF num(4), of 0]
          by blast
        show ?thesis
        proof (cases b1)
          case True
          with bs show ?thesis
            by (intro disjI2 known [OF reject_batch_size [OF req]])
               (simp_all add: config_messages_def)
        next
          case n1: False
          show ?thesis
          proof (cases b2)
            case True
            with bs n1 show ?thesis
              by (intro disjI2 known [OF reject_flush_interval [OF req]])
                 (simp_all add: config_messages_def)
          next
            case n2: False
            show ?thesis
            proof (cases b3)
              case True
              with bs n1 n2 show ?thesis
                by (intro disjI2 known [OF reject_max_queue_size [OF req]])
                   (simp_all add: config_messages_def)
            next
              case n3: False
              show ?thesis
              proof (cases b4)
                case True
                with bs n1 n2 n3 show ?thesis
                  by (intro disjI2 known [OF reject_max_retries [OF req]])
                     (simp_all add: config_messages_def)
              next
                case False
                with bs n1 n2 n3 show ?thesis
                  by (intro disjI1 accept_all_checks [OF req]) simp_all
              qed
            qed
          qed
        qed
      qed
    qed
  qed
qed


text \<open>Example 4, whose numeric field is a number: the failure is one of the eight.\<close>

theorem C3_only_invalid_config_witness:
  "numeric_fields_are_numbers (example_config(''batch_size'' \<mapsto> PInt (- 1)))
   \<and> ((\<exists>out. validate_config generic_urlsplit
                (example_config(''batch_size'' \<mapsto> PInt (- 1))) = Inr out)
        \<or> (\<exists>msg. msg \<in> set config_messages
               \<and> validate_config generic_urlsplit
                     (example_config(''batch_size'' \<mapsto> PInt (- 1))) =
                   Inl (LogwellError msg INVALID_CONFIG)))"
proof -
  have n: "numeric_fields_are_numbers (example_config(''batch_size'' \<mapsto> PInt (- 1)))"
    by (simp add: numeric_fields_are_numbers_def absent_or_def example_config_def)
  from n C3_only_invalid_config [OF n, of generic_urlsplit] show ?thesis by blast
qed

lemma valid_url_absolute:
  "isinstance_str u \<Longrightarrow> truthy u \<Longrightarrow> is_valid_url parser u = Inr True \<Longrightarrow>
   spec_absolute_url parser u"
  by (cases u)
     (auto simp: is_valid_url_def urlparse_def parse_str_def spec_absolute_url_def
        split: option.splits)

lemma key_format_str: "validate_api_key_format a \<Longrightarrow> isinstance_str a"
  by (simp split: if_splits)

lemma integer_not_le_zero:
  "is_integer v \<Longrightarrow> py_le_int v 0 = Inr False \<Longrightarrow> spec_positive_integer v"
  by (cases v) (auto simp: spec_positive_integer_def split: if_splits)

lemma integer_not_lt_zero:
  "is_integer v \<Longrightarrow> py_lt_int v 0 = Inr False \<Longrightarrow> spec_non_negative_integer v"
  by (cases v) (auto simp: spec_non_negative_integer_def split: if_splits)

lemma number_not_le_zero:
  "is_integer_or_ordered_float v \<Longrightarrow> py_le_int v 0 = Inr False \<Longrightarrow> spec_positive_number v"
  by (cases "(v, 0::int)" rule: py_le_int.cases)
     (auto simp: spec_positive_integer_def split: if_splits)

lemma merged_field_holds:
  assumes "out k = Some (dict_get d k dflt)" and "absent_or d k T"
    and "present_and d k cmp = Inr False" and "P dflt"
    and "\<And>v. T v \<Longrightarrow> cmp v = Inr False \<Longrightarrow> P v"
  shows "holds_at out k P"
  using assms
  by (auto simp: holds_at_def dict_get_def absent_or_def present_and_def split: option.splits)

text \<open>
  Claim C4 says that every successful result holds fully-typed values: a string key, a
  URL endpoint, positive integers \<^verbatim>\<open>batch_size\<close> and \<^verbatim>\<open>max_queue_size\<close>, a
  positive number \<^verbatim>\<open>flush_interval\<close>, a non-negative integer \<^verbatim>\<open>max_retries\<close> and
  a boolean \<^verbatim>\<open>capture_source_location\<close>. The fields are copied as they come, the
  numeric ones after a bound check, and no type is checked but the key's. Example 1
  validates, and the result holds the value supplied, with \<^verbatim>\<open>batch_size\<close> 2.5, with
  \<^verbatim>\<open>flush_interval\<close> NaN (which is not \<^verbatim>\<open><= 0\<close>), with
  \<^verbatim>\<open>capture_source_location\<close> the string \<^verbatim>\<open>"yes"\<close>, and with the endpoint given as a
  byte string.
\<close>

theorem C4_untyped_values_accepted:
  "validate_config generic_urlsplit (example_config(''batch_size'' \<mapsto> PFloat (Finite (5 / 2)))) =
     Inr (example_normalized(''batch_size'' \<mapsto> PFloat (Finite (5 / 2))))
   \<and> \<not> spec_fully_typed generic_urlsplit
         (example_normalized(''batch_size'' \<mapsto> PFloat (Finite (5 / 2))))
   \<and> validate_config generic_urlsplit (example_config(''flush_interval'' \<mapsto> PFloat NaN)) =
     Inr (example_normalized(''flush_interval'' \<mapsto> PFloat NaN))
   \<and> \<not> spec_fully_typed generic_urlsplit
         (example_normalized(''flush_interval'' \<mapsto> PFloat NaN))
   \<and> validate_config generic_urlsplit
       (example_config(''capture_source_location'' \<mapsto> PStr ''yes'')) =
     Inr (example_normalized(''capture_source_location'' \<mapsto> PStr ''yes''))
   \<and> \<not> spec_fully_typed generic_urlsplit
         (example_normalized(''capture_source_location'' \<mapsto> PStr ''yes''))
   \<and> validate_config generic_urlsplit
       (example_config(''endpoint'' \<mapsto> PBytes ''https://ingest.example.com'')) =
     Inr (example_normalized(''endpoint'' \<mapsto> PBytes ''https://ingest.example.com''))
   \<and> \<not> spec_fully_typed generic_urlsplit
         (example_normalized(''endpoint'' \<mapsto> PBytes ''https://ingest.example.com''))"
proof -
  have merged: "validate_config generic_urlsplit d = Inr out"
    if req: "required_fields_valid generic_urlsplit d"
      and num: "present_and d ''batch_size'' (\<lambda>v. py_le_int v 0) = Inr False"
        "present_and d ''flush_interval'' (\<lambda>v. py_le_int v 0) = Inr False"
        "present_and d ''max_queue_size'' (\<lambda>v. py_le_int v 0) = Inr False"
        "present_and d ''max_retries'' (\<lambda>v. py_lt_int v 0) = Inr False"
      and out: "\<And>out' k. merge_defaults d = Inr out' \<Longrightarrow> out' k = out k"
    for d out
  proof -
    obtain out' where o: "validate_config generic_urlsplit d = Inr out'"
      using accept_all_checks [OF req num] by blast
    then have "merge_defaults d = Inr out'" by (rule validate_config_InrD(6))
    then have "out' = out" using out by (intro ext)
    with o show ?thesis by simp
  qed
  have bytes_valid: "required_fields_valid generic_urlsplit
      (example_config(''endpoint'' \<mapsto> PBytes ''https://ingest.example.com''))"
    using spec_shape_accepted [OF example_key_shape]
    by (simp add: required_fields_valid_def example_config_def is_valid_url_def urlparse_def
        parse_str_def is_ascii_def example_endpoint_parse del: validate_api_key_format.simps)
  have 1: "validate_config generic_urlsplit
      (example_config(''batch_size'' \<mapsto> PFloat (Finite (5 / 2)))) =
     Inr (example_normalized(''batch_size'' \<mapsto> PFloat (Finite (5 / 2))))"
    by (rule merged)
       (simp_all add: example_required_valid example_config_def present_and_def
          merge_defaults_lookup example_normalized_def dict_get_def)
  have 2: "validate_config generic_urlsplit (example_config(''flush_interval'' \<mapsto> PFloat NaN)) =
     Inr (example_normalized(''flush_interval'' \<mapsto> PFloat NaN))"
    by (rule merged)
       (simp_all add: example_required_valid example_config_def present_and_def
          merge_defaults_lookup example_normalized_def dict_get_def)
  have 3: "validate_config generic_urlsplit
       (example_config(''capture_source_location'' \<mapsto> PStr ''yes'')) =
     Inr (example_normalized(''capture_source_location'' \<mapsto> PStr ''yes''))"
    by (rule merged)
       (simp_all add: example_required_valid example_config_def present_and_def
          merge_defaults_lookup example_normalized_def dict_get_def)
  have 4: "validate_config generic_urlsplit
       (example_config(''endpoint'' \<mapsto> PBytes ''https://ingest.example.com'')) =
     Inr (example_normalized(''endpoint'' \<mapsto> PBytes ''https://ingest.example.com''))"
    by (rule merged [OF bytes_valid])
       (simp_all add: example_config_def present_and_def
          merge_defaults_lookup example_normalized_def dict_get_def)
  have n: "\<not> spec_fully_typed generic_urlsplit
         (example_normalized(''batch_size'' \<mapsto> PFloat (Finite (5 / 2))))"
    "\<not> spec_fully_typed generic_urlsplit
         (example_normalized(''flush_interval'' \<mapsto> PFloat NaN))"
    "\<not> spec_fully_typed generic_urlsplit
         (example_normalized(''capture_source_location'' \<mapsto> PStr ''yes''))"
    "\<not> spec_fully_typed generic_urlsplit
         (example_normalized(''endpoint'' \<mapsto> PBytes ''https://ingest.example.com''))"
    by (simp_all add: spec_fully_typed_def holds_at_def spec_positive_integer_def
        spec_absolute_url_def)
  from 1 2 3 4 n show ?thesis by (intro conjI)
qed

text \<open>
  Claim C4, amended. Whenever \<^verbatim>\<open>validate_config\<close> succeeds on an input whose
  endpoint is a string and whose optional core fields, where supplied, have their
  declared types (integers for \<^verbatim>\<open>batch_size\<close>, \<^verbatim>\<open>max_queue_size\<close> and
  \<^verbatim>\<open>max_retries\<close>, an integer or a float other than NaN for \<^verbatim>\<open>flush_interval\<close>, a
  boolean for \<^verbatim>\<open>capture_source_location\<close>), the result holds a string key, a URL
  endpoint, positive integers \<^verbatim>\<open>batch_size\<close> and \<^verbatim>\<open>max_queue_size\<close>, a positive
  number \<^verbatim>\<open>flush_interval\<close>, a non-negative integer \<^verbatim>\<open>max_retries\<close> and a boolean
  \<^verbatim>\<open>capture_source_location\<close>.
\<close>

theorem C4_typed_input_typed_output:
  assumes "validate_config parser d = Inr out"
    and "holds_at d ''endpoint'' isinstance_str" and "optional_fields_typed d"
  shows "spec_fully_typed parser out"
proof -
  note ok = validate_config_InrD [OF assms(1)]
  note lk = merge_defaults_lookup [OF ok(6)]
  from assms(3) have ty: "absent_or d ''batch_size'' is_integer"
    "absent_or d ''flush_interval'' is_integer_or_ordered_float"
    "absent_or d ''max_queue_size'' is_integer" "absent_or d ''max_retries'' is_integer"
    "absent_or d ''capture_source_location'' is_bool"
    by (simp_all add: optional_fields_typed_def)
  from ok(1) obtain a u where au: "d ''api_key'' = Some a" "d ''endpoint'' = Some u"
    and v: "validate_api_key_format a" "truthy u" "is_valid_url parser u = Inr True"
    by (auto simp: required_fields_valid_def split: option.splits)
  from assms(2) au have str: "isinstance_str u" by (simp add: holds_at_def)
  have "holds_at out ''api_key'' isinstance_str"
    using au key_format_str [OF v(1)] by (simp add: holds_at_def lk)
  moreover have "holds_at out ''endpoint'' (spec_absolute_url parser)"
    using au valid_url_absolute [OF str v(2,3)] by (simp add: holds_at_def lk)
  moreover have "holds_at out ''batch_size'' spec_positive_integer"
    by (rule merged_field_holds [OF _ ty(1) ok(2) _ integer_not_le_zero,
          where dflt = "PInt 50"])
       (simp_all add: lk spec_positive_integer_def)
  moreover have "holds_at out ''flush_interval'' spec_positive_number"
    by (rule merged_field_holds [OF _ ty(2) ok(3) _ number_not_le_zero,
          where dflt = "PFloat (Finite 5)"])
       (simp_all add: lk)
  moreover have "holds_at out ''max_queue_size'' spec_positive_integer"
    by (rule merged_field_holds [OF _ ty(3) ok(4) _ integer_not_le_zero,
          where dflt = "PInt 1000"])
       (simp_all add: lk spec_positive_integer_def)
  moreover have "holds_at out ''max_retries'' spec_non_negative_integer"
    by (rule merged_field_holds [OF _ ty(4) ok(5) _ integer_not_lt_zero,
          where dflt = "PInt 3"])
       (simp_all add: lk spec_non_negative_integer_def)
  moreover have "holds_at out ''capture_source_location'' is_bool"
    using ty(5)
    by (auto simp: holds_at_def lk dict_get_def absent_or_def split: option.splits)
  ultimately show ?thesis by (simp add: spec_fully_typed_def)
qed

text \<open>
  Example 1 with each of the five optional fields supplied in its declared type, the
  positive ones above their bound and \<^verbatim>\<open>max_retries\<close> at its bound: the values
  supplied come back, and the result is fully typed.
\<close>

theorem C4_typed_input_typed_output_witness:
  "holds_at example_tuned ''endpoint'' isinstance_str
   \<and> optional_fields_typed example_tuned
   \<and> (\<exists>out. validate_config generic_urlsplit example_tuned = Inr out
         \<and> out ''batch_size'' = Some (PInt 10)
         \<and> out ''flush_interval'' = Some (PFloat (Finite (5 / 2)))
         \<and> out ''max_queue_size'' = Some (PInt 500)
         \<and> out ''max_retries'' = Some (PInt 0)
         \<and> out ''capture_source_location'' = Some (PBool True)
         \<and> spec_fully_typed generic_urlsplit out)"
proof -
  have e: "holds_at example_tuned ''endpoint'' isinstance_str"
    by (simp add: holds_at_def example_tuned_def example_config_def)
  have t: "optional_fields_typed example_tuned"
    by (simp add: optional_fields_typed_def absent_or_def example_tuned_def)
  have req: "required_fields_valid generic_urlsplit example_tuned"
    by (intro example_required_valid) (simp_all add: example_tuned_def example_config_def)
  obtain out where o: "validate_config generic_urlsplit example_tuned = Inr out"
    using accept_all_checks [OF req]
    by (auto simp: present_and_def example_tuned_def)
  note lk = merge_defaults_lookup [OF validate_config_InrD(6) [OF o]]
  have "out ''batch_size'' = Some (PInt 10)"
    "out ''flush_interval'' = Some (PFloat (Finite (5 / 2)))"
    "out ''max_queue_size'' = Some (PInt 500)" "out ''max_retries'' = Some (PInt 0)"
    "out ''capture_source_location'' = Some (PBool True)"
    by (simp_all add: lk dict_get_def example_tuned_def)
  with C4_typed_input_typed_output [OF o e t] o e t show ?thesis by blast
qed

lemma empty_string_parse:
  "generic_urlsplit [] = Some \<lparr>scheme = [], netloc = []\<rparr>"
  by (simp add: generic_urlsplit_def)

lemma open_bracket_unparseable: "generic_urlsplit ''http://[bad'' = None"
  by (simp add: generic_urlsplit_def Let_def is_alpha_def scheme_char_def)

text \<open>
  Claim C6 says that every endpoint string that does not parse, or parses without a
  scheme or without a network location, fails with \<^verbatim>\<open>Invalid endpoint URL\<close>. The
  empty string is such a string (it parses, to an empty scheme and an empty network
  location), and the check for a missing endpoint, which runs first, takes it: the
  failure is \<^verbatim>\<open>endpoint is required\<close>.
\<close>

theorem C6_empty_endpoint_is_required:
  "generic_urlsplit [] = Some \<lparr>scheme = [], netloc = []\<rparr>
   \<and> validate_config generic_urlsplit (example_config(''endpoint'' \<mapsto> PStr [])) =
       Inl (LogwellError ''endpoint is required'' INVALID_CONFIG)"
proof -
  have "validate_config generic_urlsplit (example_config(''endpoint'' \<mapsto> PStr [])) =
       Inl (LogwellError ''endpoint is required'' INVALID_CONFIG)"
    by (rule reject_endpoint_required)
       (simp_all add: absent_or_false_def example_config_def example_key_def)
  with empty_string_parse show ?thesis by simp
qed

text \<open>
  Claim C6, amended. For every non-empty endpoint string that the parser rejects, or
  splits into an empty scheme or an empty network location, \<^verbatim>\<open>validate_config\<close> with
  a valid API key fails with \<^verbatim>\<open>InvalidConfig\<close> and \<^verbatim>\<open>Invalid endpoint URL\<close>, the
  same failure in both cases; and the URL predicate returns a boolean on every value,
  it never raises.
\<close>

theorem C6_invalid_endpoint:
  "(holds_at d ''api_key'' validate_api_key_format \<and> d ''endpoint'' = Some (PStr u)
      \<and> u \<noteq> []
      \<and> (case parser u of None \<Rightarrow> True | Some r \<Rightarrow> scheme r = [] \<or> netloc r = []) \<longrightarrow>
    validate_config parser d = Inl (LogwellError ''Invalid endpoint URL'' INVALID_CONFIG))
   \<and> (\<exists>b. is_valid_url parser v = Inr b)"
proof (intro conjI impI)
  assume h: "holds_at d ''api_key'' validate_api_key_format \<and> d ''endpoint'' = Some (PStr u)
      \<and> u \<noteq> []
      \<and> (case parser u of None \<Rightarrow> True | Some r \<Rightarrow> scheme r = [] \<or> netloc r = [])"
  then have "is_valid_url parser (PStr u) = Inr False"
    by (auto simp: is_valid_url_def urlparse_def parse_str_def split: option.splits)
  with h show "validate_config parser d =
      Inl (LogwellError ''Invalid endpoint URL'' INVALID_CONFIG)"
    by (intro reject_endpoint_url) (simp_all add: absent_or_false_def holds_at_def)
next
  show "\<exists>b. is_valid_url parser v = Inr b" by (rule is_valid_url_total)
qed

text \<open>
  A string without scheme and a string the parser rejects, each with Example 1's key.
\<close>

theorem C6_invalid_endpoint_witness:
  "validate_config generic_urlsplit (example_config(''endpoint'' \<mapsto> PStr ''not a url'')) =
     Inl (LogwellError ''Invalid endpoint URL'' INVALID_CONFIG)
   \<and> generic_urlsplit ''http://[bad'' = None
   \<and> validate_config generic_urlsplit (example_config(''endpoint'' \<mapsto> PStr ''http://[bad'')) =
     Inl (LogwellError ''Invalid endpoint URL'' INVALID_CONFIG)"
proof -
  note key = spec_shape_accepted [OF example_key_shape]
  have p: "generic_urlsplit ''not a url'' = Some \<lparr>scheme = [], netloc = []\<rparr>"
    by (simp add: generic_urlsplit_def Let_def)
  have 1: "validate_config generic_urlsplit
      (example_config(''endpoint'' \<mapsto> PStr ''not a url'')) =
     Inl (LogwellError ''Invalid endpoint URL'' INVALID_CONFIG)"
    using C6_invalid_endpoint [of "example_config(''endpoint'' \<mapsto> PStr ''not a url'')"
        "''not a url''" generic_urlsplit, THEN conjunct1] key p
    by (simp add: holds_at_def example_config_def del: validate_api_key_format.simps)
  have 2: "validate_config generic_urlsplit
      (example_config(''endpoint'' \<mapsto> PStr ''http://[bad'')) =
     Inl (LogwellError ''Invalid endpoint URL'' INVALID_CONFIG)"
    using C6_invalid_endpoint [of "example_config(''endpoint'' \<mapsto> PStr ''http://[bad'')"
        "''http://[bad''" generic_urlsplit, THEN conjunct1] key open_bracket_unparseable
    by (simp add: holds_at_def example_config_def del: validate_api_key_format.simps)
  from 1 2 open_bracket_unparseable show ?thesis by simp
qed

lemma required_other_key:
  "k \<noteq> ''api_key'' \<Longrightarrow> k \<noteq> ''endpoint'' \<Longrightarrow>
   required_fields_valid parser d \<Longrightarrow> required_fields_valid parser (d(k \<mapsto> v))"
  by (simp add: required_fields_valid_def)

text \<open>
  Claim C7 says that with valid required fields each numeric field out of its bound
  is rejected with its own reason. Only the first violated check is reported: with
  \<^verbatim>\<open>batch_size\<close> 0 and \<^verbatim>\<open>flush_interval\<close> 0 the reason is
  \<^verbatim>\<open>batch_size must be positive\<close>, not that of \<^verbatim>\<open>flush_interval\<close>.
\<close>

theorem C7_first_violation_reported:
  "validate_config generic_urlsplit
     (example_config(''batch_size'' \<mapsto> PInt 0, ''flush_interval'' \<mapsto> PInt 0)) =
     Inl (LogwellError ''batch_size must be positive'' INVALID_CONFIG)
   \<and> validate_config generic_urlsplit
     (example_config(''batch_size'' \<mapsto> PInt 0, ''flush_interval'' \<mapsto> PInt 0)) \<noteq>
     Inl (LogwellError ''flush_interval must be positive'' INVALID_CONFIG)"
proof -
  have "validate_config generic_urlsplit
     (example_config(''batch_size'' \<mapsto> PInt 0, ''flush_interval'' \<mapsto> PInt 0)) =
     Inl (LogwellError ''batch_size must be positive'' INVALID_CONFIG)"
    by (rule reject_batch_size [OF example_required_valid])
       (simp_all add: example_config_def present_and_def)
  then show ?thesis by simp
qed

text \<open>
  Claim C7, amended. For every configuration with valid required fields: a supplied
  \<^verbatim>\<open>batch_size\<close> that is \<^verbatim>\<open><= 0\<close> is rejected with
  \<^verbatim>\<open>batch_size must be positive\<close>; a supplied \<^verbatim>\<open>flush_interval\<close> or
  \<^verbatim>\<open>max_queue_size\<close> that is \<^verbatim>\<open><= 0\<close>, and a supplied \<^verbatim>\<open>max_retries\<close> that is
  \<^verbatim>\<open>< 0\<close>, is rejected with its own reason when every numeric field checked before it
  (in the order \<^verbatim>\<open>batch_size\<close>, \<^verbatim>\<open>flush_interval\<close>, \<^verbatim>\<open>max_queue_size\<close>,
  \<^verbatim>\<open>max_retries\<close>) is absent or passes its check. The boundary values are accepted:
  in a configuration that validates, setting \<^verbatim>\<open>batch_size\<close> to 1,
  \<^verbatim>\<open>max_queue_size\<close> to 1, \<^verbatim>\<open>max_retries\<close> to 0 or \<^verbatim>\<open>flush_interval\<close> to any
  positive value, however small, gives a configuration that validates.
\<close>

theorem C7_bounds:
  assumes "required_fields_valid parser d"
  shows "(holds_at d ''batch_size'' (\<lambda>v. py_le_int v 0 = Inr True) \<longrightarrow>
            validate_config parser d =
              Inl (LogwellError ''batch_size must be positive'' INVALID_CONFIG))
         \<and> (present_and d ''batch_size'' (\<lambda>v. py_le_int v 0) = Inr False
              \<and> holds_at d ''flush_interval'' (\<lambda>v. py_le_int v 0 = Inr True) \<longrightarrow>
            validate_config parser d =
              Inl (LogwellError ''flush_interval must be positive'' INVALID_CONFIG))
         \<and> (present_and d ''batch_size'' (\<lambda>v. py_le_int v 0) = Inr False
              \<and> present_and d ''flush_interval'' (\<lambda>v. py_le_int v 0) = Inr False
              \<and> holds_at d ''max_queue_size'' (\<lambda>v. py_le_int v 0 = Inr True) \<longrightarrow>
            validate_config parser d =
              Inl (LogwellError ''max_queue_size must be positive'' INVALID_CONFIG))
         \<and> (present_and d ''batch_size'' (\<lambda>v. py_le_int v 0) = Inr False
              \<and> present_and d ''flush_interval'' (\<lambda>v. py_le_int v 0) = Inr False
              \<and> present_and d ''max_queue_size'' (\<lambda>v. py_le_int v 0) = Inr False
              \<and> holds_at d ''max_retries'' (\<lambda>v. py_lt_int v 0 = Inr True) \<longrightarrow>
            validate_config parser d =
              Inl (LogwellError ''max_retries must be non-negative'' INVALID_CONFIG))
         \<and> ((\<exists>out. validate_config parser d = Inr out) \<longrightarrow>
              (\<exists>out. validate_config parser (d(''batch_size'' \<mapsto> PInt 1)) = Inr out)
              \<and> (\<exists>out. validate_config parser (d(''max_queue_size'' \<mapsto> PInt 1)) = Inr out)
              \<and> (\<exists>out. validate_config parser (d(''max_retries'' \<mapsto> PInt 0)) = Inr out)
              \<and> (\<forall>r. 0 < r \<longrightarrow>
                    (\<exists>out. validate_config parser
                             (d(''flush_interval'' \<mapsto> PFloat (Finite r))) = Inr out)))"
proof -
  have supplied: "present_and d k cmp = Inr True" if "holds_at d k (\<lambda>v. cmp v = Inr True)"
    for k cmp
    using that by (auto simp: holds_at_def present_and_def split: option.splits)
  have positive: "\<exists>out'. validate_config parser (d(k \<mapsto> v)) = Inr out'"
    if ok: "validate_config parser d = Inr out"
      and k: "k \<in> {''batch_size'', ''flush_interval'', ''max_queue_size''}"
      and v: "py_le_int v 0 = Inr False"
    for k v out
  proof (rule accept_all_checks)
    note p = validate_config_InrD [OF ok]
    show "required_fields_valid parser (d(k \<mapsto> v))"
      using k by (intro required_other_key p(1)) auto
    show "present_and (d(k \<mapsto> v)) ''batch_size'' (\<lambda>v. py_le_int v 0) = Inr False"
      using p(2) v by (simp add: present_and_def)
    show "present_and (d(k \<mapsto> v)) ''flush_interval'' (\<lambda>v. py_le_int v 0) = Inr False"
      using p(3) v by (simp add: present_and_def)
    show "present_and (d(k \<mapsto> v)) ''max_queue_size'' (\<lambda>v. py_le_int v 0) = Inr False"
      using p(4) v by (simp add: present_and_def)
    show "present_and (d(k \<mapsto> v)) ''max_retries'' (\<lambda>v. py_lt_int v 0) = Inr False"
      using p(5) k by (auto simp: present_and_def)
  qed
  have non_negative: "\<exists>out'. validate_config parser (d(''max_retries'' \<mapsto> v)) = Inr out'"
    if ok: "validate_config parser d = Inr out" and v: "py_lt_int v 0 = Inr False"
    for v out
  proof (rule accept_all_checks)
    note p = validate_config_InrD [OF ok]
    show "required_fields_valid parser (d(''max_retries'' \<mapsto> v))"
      by (intro required_other_key p(1)) auto
    show "present_and (d(''max_retries'' \<mapsto> v)) ''batch_size'' (\<lambda>v. py_le_int v 0) =
        Inr False"
      using p(2) by (simp add: present_and_def)
    show "present_and (d(''max_retries'' \<mapsto> v)) ''flush_interval'' (\<lambda>v. py_le_int v 0) =
        Inr False"
      using p(3) by (simp add: present_and_def)
    show "present_and (d(''max_retries'' \<mapsto> v)) ''max_queue_size'' (\<lambda>v. py_le_int v 0) =
        Inr False"
      using p(4) by (simp add: present_and_def)
    show "present_and (d(''max_retries'' \<mapsto> v)) ''max_retries'' (\<lambda>v. py_lt_int v 0) =
        Inr False"
      using v by (simp add: present_and_def)
  qed
  show ?thesis
  proof (intro conjI impI allI)
    assume "holds_at d ''batch_size'' (\<lambda>v. py_le_int v 0 = Inr True)"
    then show "validate_config parser d =
        Inl (LogwellError ''batch_size must be positive'' INVALID_CONFIG)"
      by (intro reject_batch_size assms supplied)
  next
    assume "present_and d ''batch_size'' (\<lambda>v. py_le_int v 0) = Inr False
      \<and> holds_at d ''flush_interval'' (\<lambda>v. py_le_int v 0 = Inr True)"
    then show "validate_config parser d =
        Inl (LogwellError ''flush_interval must be positive'' INVALID_CONFIG)"
      by (intro reject_flush_interval assms supplied) simp_all
  next
    assume "present_and d ''batch_size'' (\<lambda>v. py_le_int v 0) = Inr False
      \<and> present_and d ''flush_interval'' (\<lambda>v. py_le_int v 0) = Inr False
      \<and> holds_at d ''max_queue_size'' (\<lambda>v. py_le_int v 0 = Inr True)"
    then show "validate_config parser d =
        Inl (LogwellError ''max_queue_size must be positive'' INVALID_CONFIG)"
      by (intro reject_max_queue_size assms supplied) simp_all
  next
    assume "present_and d ''batch_size'' (\<lambda>v. py_le_int v 0) = Inr False
      \<and> present_and d ''flush_interval'' (\<lambda>v. py_le_int v 0) = Inr False
      \<and> present_and d ''max_queue_size'' (\<lambda>v. py_le_int v 0) = Inr False
      \<and> holds_at d ''max_retries'' (\<lambda>v. py_lt_int v 0 = Inr True)"
    then show "validate_config parser d =
        Inl (LogwellError ''max_retries must be non-negative'' INVALID_CONFIG)"
      by (intro reject_max_retries assms supplied) simp_all
  next
    assume "\<exists>out. validate_config parser d = Inr out"
    then obtain out where "validate_config parser d = Inr out" ..
    then show "\<exists>out. validate_config parser (d(''batch_size'' \<mapsto> PInt 1)) = Inr out"
      by (rule positive) simp_all
  next
    assume "\<exists>out. validate_config parser d = Inr out"
    then obtain out where "validate_config parser d = Inr out" ..
    then show "\<exists>out. validate_config parser (d(''max_queue_size'' \<mapsto> PInt 1)) = Inr out"
      by (rule positive) simp_all
  next
    assume "\<exists>out. validate_config parser d = Inr out"
    then obtain out where "validate_config parser d = Inr out" ..
    then show "\<exists>out. validate_config parser (d(''max_retries'' \<mapsto> PInt 0)) = Inr out"
      by (rule non_negative) simp
  next
    fix r :: rat
    assume "\<exists>out. validate_config parser d = Inr out" and r: "0 < r"
    then obtain out where "validate_config parser d = Inr out" by blast
    then show "\<exists>out. validate_config parser
        (d(''flush_interval'' \<mapsto> PFloat (Finite r))) = Inr out"
      by (rule positive) (use r in simp_all)
  qed
qed


text \<open>
  Example 1 with one numeric field out of its bound (Example 4 among them), and with
  each field at its boundary.
\<close>

theorem C7_bounds_witness:
  "validate_config generic_urlsplit (example_config(''batch_size'' \<mapsto> PInt (- 1))) =
     Inl (LogwellError ''batch_size must be positive'' INVALID_CONFIG)
   \<and> validate_config generic_urlsplit (example_config(''flush_interval'' \<mapsto> PFloat (Finite 0))) =
     Inl (LogwellError ''flush_interval must be positive'' INVALID_CONFIG)
   \<and> validate_config generic_urlsplit (example_config(''max_queue_size'' \<mapsto> PInt 0)) =
     Inl (LogwellError ''max_queue_size must be positive'' INVALID_CONFIG)
   \<and> validate_config generic_urlsplit (example_config(''max_retries'' \<mapsto> PInt (- 1))) =
     Inl (LogwellError ''max_retries must be non-negative'' INVALID_CONFIG)
   \<and> (\<exists>out. validate_config generic_urlsplit (example_config(''batch_size'' \<mapsto> PInt 1)) =
         Inr out)
   \<and> (\<exists>out. validate_config generic_urlsplit (example_config(''max_queue_size'' \<mapsto> PInt 1)) =
         Inr out)
   \<and> (\<exists>out. validate_config generic_urlsplit (example_config(''max_retries'' \<mapsto> PInt 0)) =
         Inr out)
   \<and> (\<exists>out. validate_config generic_urlsplit
         (example_config(''flush_interval'' \<mapsto> PFloat (Finite (1 / 1000)))) = Inr out)"
proof -
  have req: "required_fields_valid generic_urlsplit (example_config(k \<mapsto> v))"
    if "k \<noteq> ''api_key''" "k \<noteq> ''endpoint''" for k v
    using that by (intro example_required_valid) (simp_all add: example_config_def)
  have req0: "required_fields_valid generic_urlsplit example_config"
    by (intro example_required_valid) (simp_all add: example_config_def)
  have ok0: "\<exists>out. validate_config generic_urlsplit example_config = Inr out"
    using example_validates by blast
  note at_bounds = C7_bounds [OF req0, THEN conjunct2, THEN conjunct2, THEN conjunct2,
      THEN conjunct2, rule_format, OF ok0]
  have 1: "validate_config generic_urlsplit (example_config(''batch_size'' \<mapsto> PInt (- 1))) =
     Inl (LogwellError ''batch_size must be positive'' INVALID_CONFIG)"
    using C7_bounds [OF req, of "''batch_size''" "PInt (- 1)", THEN conjunct1]
    by (simp add: holds_at_def)
  have 2: "validate_config generic_urlsplit
      (example_config(''flush_interval'' \<mapsto> PFloat (Finite 0))) =
     Inl (LogwellError ''flush_interval must be positive'' INVALID_CONFIG)"
    using C7_bounds [OF req, of "''flush_interval''" "PFloat (Finite 0)",
        THEN conjunct2, THEN conjunct1]
    by (simp add: holds_at_def present_and_def example_config_def)
  have 3: "validate_config generic_urlsplit (example_config(''max_queue_size'' \<mapsto> PInt 0)) =
     Inl (LogwellError ''max_queue_size must be positive'' INVALID_CONFIG)"
    using C7_bounds [OF req, of "''max_queue_size''" "PInt 0",
        THEN conjunct2, THEN conjunct2, THEN conjunct1]
    by (simp add: holds_at_def present_and_def example_config_def)
  have 4: "validate_config generic_urlsplit (example_config(''max_retries'' \<mapsto> PInt (- 1))) =
     Inl (LogwellError ''max_retries must be non-negative'' INVALID_CONFIG)"
    using C7_bounds [OF req, of "''max_retries''" "PInt (- 1)",
        THEN conjunct2, THEN conjunct2, THEN conjunct2, THEN conjunct1]
    by (simp add: holds_at_def present_and_def example_config_def)
  have 5: "\<exists>out. validate_config generic_urlsplit
      (example_config(''flush_interval'' \<mapsto> PFloat (Finite (1 / 1000)))) = Inr out"
    using at_bounds by simp
  from 1 2 3 4 5 at_bounds show ?thesis by simp
qed

end
